theory Spec2Isabelle
  imports Complex_Main
begin

section \<open>JavaScript values used by the client\<close>

text \<open>
  The program is the session store and request pipeline of \<^verbatim>\<open>src/lib/api.ts\<close>
  (class \<^verbatim>\<open>ApiClient\<close>) and the expiration watcher of
  \<^verbatim>\<open>src/hooks/useTokenExpiration.ts\<close>. Strings are byte lists. Numbers are
  integers (epoch milliseconds, whole seconds, HTTP status codes, page numbers), which
  JavaScript's doubles represent exactly below \<open>2^53\<close>; the one non-integer that the
  code can produce, \<^verbatim>\<open>NaN\<close> from \<^verbatim>\<open>parseInt\<close>, is kept apart. Writes to the two storages
  succeed, and \<^verbatim>\<open>response.text()\<close> resolves.
\<close>

datatype jsnum = NaN | Num int

text \<open>A parsed JSON value. The properties of an object are a list of pairs; where a name
  occurs twice the first pair is the property.\<close>

datatype json_value =
    JNull
  | JBool bool
  | JNum int
  | JStr string
  | JArr "json_value list"
  | JObj "(string \<times> json_value) list"

text \<open>
  A thrown value: \<open>Val v\<close> is a plain value (an object literal such as an \<^verbatim>\<open>ApiError\<close>, or a
  primitive), \<open>Err m ps\<close> is an instance of \<^verbatim>\<open>Error\<close> with message \<open>m\<close> and further
  properties \<open>ps\<close>.
\<close>

datatype thrown = Val json_value | Err string "(string \<times> json_value) list"

text \<open>ToBoolean, as \<^verbatim>\<open>if (x)\<close> and \<^verbatim>\<open>!x\<close> apply it.\<close>

fun truthy_str :: "string option \<Rightarrow> bool" where
  "truthy_str None = False"
| "truthy_str (Some s) = (s \<noteq> [])"

fun truthy_num :: "jsnum option \<Rightarrow> bool" where
  "truthy_num None = False"
| "truthy_num (Some NaN) = False"
| "truthy_num (Some (Num n)) = (n \<noteq> 0)"

fun truthy_int :: "int option \<Rightarrow> bool" where
  "truthy_int None = False"
| "truthy_int (Some n) = (n \<noteq> 0)"

fun truthy :: "json_value \<Rightarrow> bool" where
  "truthy JNull = False"
| "truthy (JBool b) = b"
| "truthy (JNum n) = (n \<noteq> 0)"
| "truthy (JStr s) = (s \<noteq> [])"
| "truthy (JArr _) = True"
| "truthy (JObj _) = True"

text \<open>\<^verbatim>\<open>a >= b\<close> for a number \<open>a\<close> and a \<^verbatim>\<open>number | null\<close> \<open>b\<close>: \<^verbatim>\<open>null\<close> converts to 0, and
  every comparison with \<^verbatim>\<open>NaN\<close> is false.\<close>

fun js_ge :: "int \<Rightarrow> jsnum option \<Rightarrow> bool" where
  "js_ge a None = (a \<ge> 0)"
| "js_ge a (Some NaN) = False"
| "js_ge a (Some (Num b)) = (a \<ge> b)"

text \<open>\<^verbatim>\<open>String.prototype.includes\<close>.\<close>

fun startsWith :: "string \<Rightarrow> string \<Rightarrow> bool" where
  "startsWith s [] = True"
| "startsWith [] (p # ps) = False"
| "startsWith (c # cs) (p # ps) = (c = p \<and> startsWith cs ps)"

fun includes_str :: "string \<Rightarrow> string \<Rightarrow> bool" where
  "includes_str [] p = (p = [])"
| "includes_str (c # cs) p = (startsWith (c # cs) p \<or> includes_str cs p)"

text \<open>\<^verbatim>\<open>Number.prototype.toString\<close> on an integer below \<open>10^21\<close>: its decimal digits, with a
  minus sign when negative.\<close>

definition digit_char :: "nat \<Rightarrow> char" where
  "digit_char d = ''0123456789'' ! d"

fun show_nat :: "nat \<Rightarrow> string" where
  "show_nat n = (if n < 10 then [digit_char n] else show_nat (n div 10) @ [digit_char (n mod 10)])"

declare show_nat.simps [simp del]

definition show_int :: "int \<Rightarrow> string" where
  "show_int i = (if i < 0 then CHR ''-'' # show_nat (nat (- i)) else show_nat (nat i))"

section \<open>The client and its browser environment\<close>

text \<open>
  One record holds the \<^verbatim>\<open>ApiClient\<close> fields and the globals the code touches.
  \<open>has_window\<close> is \<^verbatim>\<open>typeof window !== "undefined"\<close>; the storages and the location exist
  only then. Calls that leave the program are logged: \<open>href_assigned\<close> lists the
  assignments to \<^verbatim>\<open>window.location.href\<close>, \<open>router_replaced\<close> the calls of
  \<^verbatim>\<open>router.replace\<close>, \<open>toasts\<close> the calls of \<^verbatim>\<open>toast.warning\<close>, \<open>fetch_calls\<close> the calls of
  \<^verbatim>\<open>fetch\<close>. \<open>warningShown\<close> is the watcher's \<^verbatim>\<open>warningShownRef.current\<close>. The calls of
  \<^verbatim>\<open>logger\<close> only write to the console or a monitoring service and are left out.
\<close>

record fetch_call =
  url :: string
  init_method :: "string option"
  init_body :: "string option"
  init_headers :: "string \<rightharpoonup> string"
  init_credentials :: string

record toast =
  toast_title :: string
  toast_description :: string
  toast_duration :: int

record world =
  baseUrl :: string
  token :: "string option"
  tokenExpiresAt :: "jsnum option"
  has_window :: bool
  localStorage :: "string \<rightharpoonup> string"
  sessionStorage :: "string \<rightharpoonup> string"
  pathname :: string
  href_assigned :: "string list"
  fetch_calls :: "fetch_call list"
  warningShown :: bool
  router_replaced :: "string list"
  toasts :: "toast list"

subsection \<open>Session store\<close>

text \<open>The constructor; \<^verbatim>\<open>parseInt\<close> is the browser's and is a parameter.\<close>

definition constructor :: "(string \<Rightarrow> jsnum) \<Rightarrow> string \<Rightarrow> world \<Rightarrow> world" where
  "constructor parseInt base w =
     (let w0 = w\<lparr>baseUrl := base, token := None, tokenExpiresAt := None\<rparr> in
      if has_window w0 then
        (let expiresAt = localStorage w0 ''auth_token_expires_at'' in
         w0\<lparr>token := localStorage w0 ''auth_token'',
            tokenExpiresAt :=
              (if truthy_str expiresAt then map_option parseInt expiresAt else None)\<rparr>)
      else w0)"

text \<open>The \<^verbatim>\<open>else\<close> branch of \<^verbatim>\<open>setToken\<close>: both stored values removed, the expiry forgotten.\<close>

definition clear_stored :: "world \<Rightarrow> world" where
  "clear_stored w =
     w\<lparr>localStorage := (localStorage w)(''auth_token'' := None, ''auth_token_expires_at'' := None),
       tokenExpiresAt := None\<rparr>"

text \<open>\<^verbatim>\<open>setToken(token, expiresInSeconds?)\<close> at time \<open>now\<close> (\<^verbatim>\<open>Date.now()\<close>).\<close>

definition setToken :: "int \<Rightarrow> string option \<Rightarrow> int option \<Rightarrow> world \<Rightarrow> world" where
  "setToken now tok expiresInSeconds w =
     (let w1 = w\<lparr>token := tok\<rparr> in
      if has_window w1 then
        (case tok of
           None \<Rightarrow> clear_stored w1
         | Some t \<Rightarrow>
             if t \<noteq> [] then
               (let w2 = w1\<lparr>localStorage := (localStorage w1)(''auth_token'' \<mapsto> t)\<rparr> in
                case expiresInSeconds of
                  None \<Rightarrow> w2
                | Some n \<Rightarrow>
                    if n \<noteq> 0 then
                      (let expiresAt = now + n * 1000 in
                       w2\<lparr>tokenExpiresAt := Some (Num expiresAt),
                          localStorage :=
                            (localStorage w2)(''auth_token_expires_at'' \<mapsto> show_int expiresAt)\<rparr>)
                    else w2)
             else clear_stored w1)
      else w1)"

definition getToken :: "world \<Rightarrow> string option" where
  "getToken w = token w"

definition getTokenExpiresAt :: "world \<Rightarrow> jsnum option" where
  "getTokenExpiresAt w = tokenExpiresAt w"

definition isTokenExpired :: "int \<Rightarrow> world \<Rightarrow> bool" where
  "isTokenExpired now w =
     (if \<not> truthy_str (token w) then True
      else if \<not> truthy_num (tokenExpiresAt w) then False
      else js_ge now (tokenExpiresAt w))"

definition isTokenExpiringSoon :: "int \<Rightarrow> int \<Rightarrow> world \<Rightarrow> bool" where
  "isTokenExpiringSoon now thresholdSeconds w =
     (if \<not> truthy_str (token w) \<or> \<not> truthy_num (tokenExpiresAt w) then False
      else (let thresholdMs = thresholdSeconds * 1000 in
            case tokenExpiresAt w of
              Some (Num e) \<Rightarrow> now \<ge> e - thresholdMs
            | _ \<Rightarrow> False))"

subsection \<open>Request pipeline\<close>

text \<open>
  What \<^verbatim>\<open>fetch\<close> hands back. A response carries its status line, its
  \<^verbatim>\<open>content-type\<close> header (\<open>None\<close> when \<^verbatim>\<open>headers.get\<close> gives \<^verbatim>\<open>null\<close>), the string
  \<^verbatim>\<open>text()\<close> resolves with and the outcome of \<^verbatim>\<open>json()\<close>, which rejects when the body does
  not parse. \<^verbatim>\<open>response.ok\<close> is the status being in 200..299.
\<close>

record response =
  status :: int
  statusText :: string
  content_type :: "string option"
  body_text :: string
  body_json :: "thrown + json_value"

datatype fetch_outcome = Rejected thrown | Resolved response

definition ok :: "response \<Rightarrow> bool" where
  "ok r = (200 \<le> status r \<and> status r \<le> 299)"

record request_init =
  opt_method :: "string option"
  opt_body :: "string option"
  opt_headers :: "string \<rightharpoonup> string"

definition no_options :: request_init where
  "no_options = \<lparr>opt_method = None, opt_body = None, opt_headers = Map.empty\<rparr>"

text \<open>The object literal \<^verbatim>\<open>{ message, status }\<close>.\<close>

definition ApiError :: "json_value \<Rightarrow> int \<Rightarrow> thrown" where
  "ApiError m st = Val (JObj [(''message'', m), (''status'', JNum st)])"

text \<open>\<^verbatim>\<open>sessionStorage.setItem("session_expired", "true"); window.location.href = "/login"\<close>.\<close>

definition flag_and_redirect :: "world \<Rightarrow> world" where
  "flag_and_redirect w =
     w\<lparr>sessionStorage := (sessionStorage w)(''session_expired'' \<mapsto> ''true''),
       href_assigned := href_assigned w @ [''/login'']\<rparr>"

text \<open>Reading a property of a parsed JSON value that is not \<^verbatim>\<open>null\<close>: only an object has
  properties named \<^verbatim>\<open>detail\<close>, \<^verbatim>\<open>message\<close> or \<^verbatim>\<open>title\<close>; \<open>None\<close> is \<^verbatim>\<open>undefined\<close>.\<close>

fun get_prop :: "json_value \<Rightarrow> string \<Rightarrow> json_value option" where
  "get_prop (JObj ps) k = map_of ps k"
| "get_prop _ k = None"

text \<open>A property read that is then tested by \<^verbatim>\<open>if\<close>: the value when it is truthy.\<close>

fun truthy_prop :: "json_value option \<Rightarrow> json_value option" where
  "truthy_prop None = None"
| "truthy_prop (Some v) = (if truthy v then Some v else None)"

text \<open>The \<^verbatim>\<open>TypeError\<close> of reading \<^verbatim>\<open>errorBody.detail\<close> when \<^verbatim>\<open>errorBody\<close> is \<^verbatim>\<open>null\<close>.\<close>

definition null_TypeError :: thrown where
  "null_TypeError = Err ''Cannot read properties of null (reading 'detail')'' []"

text \<open>The choice of \<^verbatim>\<open>errorMessage\<close> from \<^verbatim>\<open>errorBody\<close> (lines 142 to 154).\<close>

definition errorMessage_of :: "json_value \<Rightarrow> response \<Rightarrow> thrown + json_value" where
  "errorMessage_of errorBody r =
     (case errorBody of
        JStr s \<Rightarrow> Inr (JStr s)
      | JNull \<Rightarrow> Inl null_TypeError
      | _ \<Rightarrow>
          (case truthy_prop (get_prop errorBody ''detail'') of
             Some detail \<Rightarrow> Inr detail
           | None \<Rightarrow>
               (case truthy_prop (get_prop errorBody ''message'') of
                  Some message \<Rightarrow> Inr message
                | None \<Rightarrow>
                    (case truthy_prop (get_prop errorBody ''title'') of
                       Some title \<Rightarrow> Inr title
                     | None \<Rightarrow>
                         Inr (JStr (''HTTP '' @ show_int (status r) @ '': '' @ statusText r))))))"

definition isJson :: "response \<Rightarrow> bool" where
  "isJson r =
     (case content_type r of
        None \<Rightarrow> False
      | Some contentType \<Rightarrow>
          includes_str contentType ''application/json'' \<or>
          includes_str contentType ''application/problem+json'')"

text \<open>The \<^verbatim>\<open>catch\<close> block of \<^verbatim>\<open>request\<close>.\<close>

fun carries_status :: "thrown \<Rightarrow> bool" where
  "carries_status (Val (JObj ps)) = (map_of ps ''status'' \<noteq> None)"
| "carries_status (Val _) = False"
| "carries_status (Err m ps) = (map_of ps ''status'' \<noteq> None)"

fun classify :: "thrown \<Rightarrow> string" where
  "classify (Err m ps) =
     (if includes_str m ''Failed to fetch'' then
        ''Unable to connect to the server. Please check your internet connection and try again.''
      else if includes_str m ''NetworkError'' then
        ''Network error. Please check your internet connection and try again.''
      else if includes_str m ''CORS'' then
        ''Service temporarily unavailable. Please try again later.''
      else ''An error occurred. Please try again.'')"
| "classify (Val v) = ''An unexpected error occurred. Please try again.''"

definition catch_block :: "thrown \<Rightarrow> thrown" where
  "catch_block error =
     (if carries_status error then error
      else ApiError (JStr (classify error)) 0)"

text \<open>
  The body of the \<^verbatim>\<open>try\<close> block after \<^verbatim>\<open>fetch\<close> has resolved with \<open>r\<close>. The result is the
  value returned (\<open>Inr\<close>) or thrown (\<open>Inl\<close>), with the world as left behind.
\<close>

definition on_401 :: "int \<Rightarrow> world \<Rightarrow> world" where
  "on_401 now w =
     (let w1 = setToken now None None w in
      if has_window w1 \<and> \<not> includes_str (pathname w1) ''/login'' then flag_and_redirect w1
      else w1)"

definition handle_response :: "int \<Rightarrow> response \<Rightarrow> world \<Rightarrow> (thrown + json_value) \<times> world" where
  "handle_response now r w =
     (if status r = 204 then (Inr (JObj []), w)
      else if \<not> ok r then
        (let w1 = (if status r = 401 then on_401 now w else w) in
         case (if isJson r then body_json r else Inr (JStr (body_text r))) of
           Inl e \<Rightarrow> (Inl e, w1)
         | Inr errorBody \<Rightarrow>
             (case errorMessage_of errorBody r of
                Inl e \<Rightarrow> (Inl e, w1)
              | Inr errorMessage \<Rightarrow> (Inl (ApiError errorMessage (status r)), w1)))
      else if isJson r then
        (case body_json r of
           Inl e \<Rightarrow> (Inl e, w)
         | Inr v \<Rightarrow> (Inr v, w))
      else (Inr (JObj []), w))"

text \<open>The headers sent: the default content type, the caller's headers over it, the bearer
  token over both.\<close>

definition request_headers :: "request_init \<Rightarrow> world \<Rightarrow> (string \<rightharpoonup> string)" where
  "request_headers options w =
     (let hs = [''Content-Type'' \<mapsto> ''application/json''] ++ opt_headers options in
      case token w of
        None \<Rightarrow> hs
      | Some t \<Rightarrow> if t \<noteq> [] then hs(''Authorization'' \<mapsto> ''Bearer '' @ t) else hs)"

definition session_expired_error :: thrown where
  "session_expired_error = ApiError (JStr ''Your session has expired. Please login again.'') 401"

text \<open>The call of \<^verbatim>\<open>fetch\<close>: \<^verbatim>\<open>fetch(url, { ...options, headers, credentials: "include" })\<close>.\<close>

definition fetch_call_of :: "string \<Rightarrow> request_init \<Rightarrow> world \<Rightarrow> fetch_call" where
  "fetch_call_of endpoint options w =
     \<lparr>url = baseUrl w @ endpoint, init_method = opt_method options,
      init_body = opt_body options, init_headers = request_headers options w,
      init_credentials = ''include''\<rparr>"

text \<open>
  \<^verbatim>\<open>request(endpoint, options)\<close>. \<open>fetch\<close> is the network: what the call of \<^verbatim>\<open>fetch\<close> settles
  with. \<open>now\<close> is \<^verbatim>\<open>Date.now()\<close> at the pre-flight check. A \<^verbatim>\<open>fetch\<close> that never settles is
  outside the model.
\<close>

definition request ::
  "(fetch_call \<Rightarrow> fetch_outcome) \<Rightarrow> int \<Rightarrow> string \<Rightarrow> request_init \<Rightarrow> world
     \<Rightarrow> (thrown + json_value) \<times> world" where
  "request fetch now endpoint options w =
     (if truthy_str (token w) \<and> isTokenExpired now w then
        (let w1 = setToken now None None w;
             w2 = (if has_window w1 then flag_and_redirect w1 else w1)
         in (Inl session_expired_error, w2))
      else
        (let call = fetch_call_of endpoint options w;
             w1 = w\<lparr>fetch_calls := fetch_calls w @ [call]\<rparr>;
             attempt = (case fetch call of
                          Rejected e \<Rightarrow> (Inl e, w1)
                        | Resolved r \<Rightarrow> handle_response now r w1)
         in case attempt of
              (Inl error, w2) \<Rightarrow> (Inl (catch_block error), w2)
            | (Inr v, w2) \<Rightarrow> (Inr v, w2)))"

text \<open>\<^verbatim>\<open>logout()\<close>: the outcome of the request is dropped; it resolves with \<^verbatim>\<open>undefined\<close>.\<close>

definition logout :: "(fetch_call \<Rightarrow> fetch_outcome) \<Rightarrow> int \<Rightarrow> world \<Rightarrow> world" where
  "logout fetch now w =
     (let (outcome, w1) =
            request fetch now ''/api/v1/auth/logout''
              \<lparr>opt_method = Some ''POST'', opt_body = None, opt_headers = Map.empty\<rparr> w
      in setToken now None None w1)"

subsection \<open>Task list\<close>

datatype TaskStatus = PENDING | IN_PROGRESS | COMPLETED

datatype SortOrder = CREATED_ASC | CREATED_DESC | UPDATED_ASC | UPDATED_DESC

fun TaskStatus_string :: "TaskStatus \<Rightarrow> string" where
  "TaskStatus_string PENDING = ''PENDING''"
| "TaskStatus_string IN_PROGRESS = ''IN_PROGRESS''"
| "TaskStatus_string COMPLETED = ''COMPLETED''"

fun SortOrder_string :: "SortOrder \<Rightarrow> string" where
  "SortOrder_string CREATED_ASC = ''CREATED_ASC''"
| "SortOrder_string CREATED_DESC = ''CREATED_DESC''"
| "SortOrder_string UPDATED_ASC = ''UPDATED_ASC''"
| "SortOrder_string UPDATED_DESC = ''UPDATED_DESC''"

text \<open>
  \<^verbatim>\<open>TaskFilters\<close>: a field is absent (\<open>None\<close>) or present; \<^verbatim>\<open>q\<close> and \<^verbatim>\<open>status\<close> may be present
  and \<^verbatim>\<open>null\<close>.
\<close>

datatype 'a nullable = Null | NonNull 'a

record TaskFilters =
  filter_page :: "int option"
  filter_size :: "int option"
  filter_q :: "string nullable option"
  filter_status :: "TaskStatus nullable option"
  filter_sort :: "SortOrder option"

text \<open>\<^verbatim>\<open>URLSearchParams.toString\<close>: the \<^verbatim>\<open>application/x-www-form-urlencoded\<close> serializer over
  the bytes of names and values.\<close>

definition hex_char :: "nat \<Rightarrow> char" where
  "hex_char d = ''0123456789ABCDEF'' ! d"

definition urlencode_byte :: "char \<Rightarrow> string" where
  "urlencode_byte c =
     (if c \<in> set ''ABCDEFGHIJKLMNOPQRSTUVWXYZabcdefghijklmnopqrstuvwxyz0123456789*-._'' then [c]
      else if c = CHR '' '' then ''+''
      else [CHR ''%'', hex_char (of_char c div 16), hex_char (of_char c mod 16)])"

definition urlencode :: "string \<Rightarrow> string" where
  "urlencode s = concat (map urlencode_byte s)"

fun join_amp :: "string list \<Rightarrow> string" where
  "join_amp [] = []"
| "join_amp [x] = x"
| "join_amp (x # y # ys) = x @ ''&'' @ join_amp (y # ys)"

definition params_toString :: "(string \<times> string) list \<Rightarrow> string" where
  "params_toString params = join_amp (map (\<lambda>(n, v). urlencode n @ ''='' @ urlencode v) params)"

text \<open>The parameters \<^verbatim>\<open>getTasks\<close> appends, in the order of its five \<^verbatim>\<open>if\<close> statements.\<close>

definition getTasks_params :: "TaskFilters option \<Rightarrow> (string \<times> string) list" where
  "getTasks_params filters =
     (let params = [];
          params = (case Option.bind filters filter_page of
                      Some page \<Rightarrow> if page \<noteq> 0 then params @ [(''page'', show_int page)] else params
                    | None \<Rightarrow> params);
          params = (case Option.bind filters filter_size of
                      Some sz \<Rightarrow> if sz \<noteq> 0 then params @ [(''size'', show_int sz)] else params
                    | None \<Rightarrow> params);
          params = (case Option.bind filters filter_q of
                      Some (NonNull q) \<Rightarrow> if q \<noteq> [] then params @ [(''q'', q)] else params
                    | _ \<Rightarrow> params);
          params = (case Option.bind filters filter_status of
                      Some (NonNull st) \<Rightarrow>
                        if TaskStatus_string st \<noteq> [] then params @ [(''status'', TaskStatus_string st)]
                        else params
                    | _ \<Rightarrow> params);
          params = (case Option.bind filters filter_sort of
                      Some so \<Rightarrow>
                        if SortOrder_string so \<noteq> [] then params @ [(''sort'', SortOrder_string so)]
                        else params
                    | None \<Rightarrow> params)
      in params)"

definition getTasks_endpoint :: "TaskFilters option \<Rightarrow> string" where
  "getTasks_endpoint filters =
     (let queryString = params_toString (getTasks_params filters) in
      if queryString \<noteq> [] then ''/api/v1/tasks?'' @ queryString else ''/api/v1/tasks'')"

definition getTasks ::
  "(fetch_call \<Rightarrow> fetch_outcome) \<Rightarrow> int \<Rightarrow> TaskFilters option \<Rightarrow> world
     \<Rightarrow> (thrown + json_value) \<times> world" where
  "getTasks fetch now filters w = request fetch now (getTasks_endpoint filters) no_options w"

subsection \<open>Expiration watcher\<close>

text \<open>\<^verbatim>\<open>Math.floor(a / b)\<close> and \<^verbatim>\<open>Math.ceil(a / b)\<close> for integers \<open>a\<close> and \<open>b > 0\<close>.\<close>

definition floor_div :: "int \<Rightarrow> int \<Rightarrow> int" where
  "floor_div a b = a div b"

definition ceil_div :: "int \<Rightarrow> int \<Rightarrow> int" where
  "ceil_div a b = - ((- a) div b)"

definition ReferenceError :: thrown where
  "ReferenceError = Err ''sessionStorage is not defined'' []"

definition expiring_toast :: "int \<Rightarrow> toast" where
  "expiring_toast minutes =
     \<lparr>toast_title = ''Session Expiring Soon'',
      toast_description =
        ''Your session will expire in '' @ show_int minutes @ '' minute'' @
        (if minutes > 1 then ''s'' else '''') @ ''. Please save your work.'',
      toast_duration = 10000\<rparr>"

text \<open>
  One run of \<^verbatim>\<open>checkTokenExpiration\<close> (a tick of the watcher) at time \<open>now\<close>. The result
  holds the exception, if one escapes: the write to \<^verbatim>\<open>sessionStorage\<close> is not guarded by a
  test for \<^verbatim>\<open>window\<close>.
\<close>

definition checkTokenExpiration :: "int \<Rightarrow> int \<Rightarrow> world \<Rightarrow> thrown option \<times> world" where
  "checkTokenExpiration now warningThresholdSeconds w =
     (if \<not> truthy_str (getToken w) \<or> \<not> truthy_num (getTokenExpiresAt w) then
        (None, w\<lparr>warningShown := False\<rparr>)
      else
        (case getTokenExpiresAt w of
           Some (Num expiresAt) \<Rightarrow>
             (let timeUntilExpiry = expiresAt - now;
                  timeUntilExpirySeconds = floor_div timeUntilExpiry 1000
              in
              if timeUntilExpiry \<le> 0 then
                (let w1 = setToken now None None w in
                 if has_window w1 then
                   (None, w1\<lparr>sessionStorage := (sessionStorage w1)(''session_expired'' \<mapsto> ''true''),
                              router_replaced := router_replaced w1 @ [''/login'']\<rparr>)
                 else (Some ReferenceError, w1))
              else
                (let w1 = (if timeUntilExpirySeconds \<le> warningThresholdSeconds \<and> \<not> warningShown w
                           then w\<lparr>toasts := toasts w @ [expiring_toast (ceil_div timeUntilExpirySeconds 60)],
                                  warningShown := True\<rparr>
                           else w);
                     w2 = (if timeUntilExpirySeconds > warningThresholdSeconds + 60
                           then w1\<lparr>warningShown := False\<rparr>
                           else w1)
                 in (None, w2)))
         | _ \<Rightarrow> (None, w)))"

section \<open>Reachable worlds and sample inputs\<close>

text \<open>
  Outside a browser the constructor reads nothing and \<^verbatim>\<open>setToken\<close> never writes the expiry,
  so a client without a window has no expiry. Every operation keeps this.
\<close>

definition wf_world :: "world \<Rightarrow> bool" where
  "wf_world w = (has_window w \<or> tokenExpiresAt w = None)"

text \<open>A browser session on the task page: token \<^verbatim>\<open>tok\<close>, expiring at 5000 ms.\<close>

definition browser_world :: world where
  "browser_world =
     \<lparr>baseUrl = ''http://localhost:8080'', token = Some ''tok'',
      tokenExpiresAt = Some (Num 5000), has_window = True,
      localStorage = [''auth_token'' \<mapsto> ''tok'', ''auth_token_expires_at'' \<mapsto> ''5000''],
      sessionStorage = Map.empty, pathname = ''/tasks'', href_assigned = [], fetch_calls = [],
      warningShown = False, router_replaced = [], toasts = []\<rparr>"

text \<open>A network that answers every call with 401 and a JSON problem body.\<close>

definition unauthorized_response :: response where
  \<open>unauthorized_response =
     \<lparr>status = 401, statusText = ''Unauthorized'',
      content_type = Some ''application/json'', body_text = ''{"message":"Unauthorized"}'',
      body_json = Inr (JObj [(''message'', JStr ''Unauthorized'')])\<rparr>\<close>

text \<open>An error response sent as plain text whose text is a JSON object with a \<^verbatim>\<open>detail\<close> field.\<close>

definition text_detail_response :: response where
  \<open>text_detail_response =
     \<lparr>status = 400, statusText = ''Bad Request'',
      content_type = Some ''text/plain'', body_text = ''{"detail":"Title is required"}'',
      body_json = Inr (JObj [(''detail'', JStr ''Title is required'')])\<rparr>\<close>

text \<open>An error response sent as JSON with only a \<^verbatim>\<open>detail\<close> field.\<close>

definition json_detail_response :: response where
  \<open>json_detail_response =
     \<lparr>status = 400, statusText = ''Bad Request'',
      content_type = Some ''application/problem+json'',
      body_text = ''{"detail":"Title is required"}'',
      body_json = Inr (JObj [(''detail'', JStr ''Title is required'')])\<rparr>\<close>

text \<open>The filter object \<^verbatim>\<open>{ page: 0, q: "" }\<close>.\<close>

definition zero_page_filters :: TaskFilters where
  "zero_page_filters =
     \<lparr>filter_page = Some 0, filter_size = None, filter_q = Some (NonNull ''''),
      filter_status = None, filter_sort = None\<rparr>"

text \<open>The filter object \<^verbatim>\<open>{ page: 2, size: 20, q: null, sort: "UPDATED_DESC" }\<close>.\<close>

definition page_two_filters :: TaskFilters where
  "page_two_filters =
     \<lparr>filter_page = Some 2, filter_size = Some 20, filter_q = Some Null,
      filter_status = None, filter_sort = Some UPDATED_DESC\<rparr>"

text \<open>An error response sent as JSON with none of the three fields.\<close>

definition json_empty_response :: response where
  "json_empty_response =
     \<lparr>status = 400, statusText = ''Bad Request'',
      content_type = Some ''application/json'', body_text = ''{}'',
      body_json = Inr (JObj [])\<rparr>"

text \<open>An error response sent as JSON with an empty \<^verbatim>\<open>detail\<close>, a \<^verbatim>\<open>null\<close> \<^verbatim>\<open>message\<close> and a
  \<^verbatim>\<open>title\<close>.\<close>

definition json_title_response :: response where
  \<open>json_title_response =
     \<lparr>status = 404, statusText = ''Not Found'',
      content_type = Some ''application/problem+json; charset=utf-8'',
      body_text = ''{"detail":"","message":null,"title":"Task not found"}'',
      body_json = Inr (JObj [(''detail'', JStr []), (''message'', JNull),
                             (''title'', JStr ''Task not found'')])\<rparr>\<close>

text \<open>A client outside a browser, fresh from the constructor.\<close>

definition server_world :: world where
  "server_world =
     \<lparr>baseUrl = ''http://localhost:8080'', token = None, tokenExpiresAt = None,
      has_window = False, localStorage = Map.empty, sessionStorage = Map.empty,
      pathname = [], href_assigned = [], fetch_calls = [], warningShown = False,
      router_replaced = [], toasts = []\<rparr>"

text \<open>The browser session with the warning already shown and the expiry 500 s away.\<close>

definition warned_world :: world where
  "warned_world = browser_world\<lparr>tokenExpiresAt := Some (Num 500000), warningShown := True\<rparr>"

section \<open>Facts about the session store\<close>

lemma setToken_null:
  "setToken now None e w =
     (if has_window w then clear_stored (w\<lparr>token := None\<rparr>) else w\<lparr>token := None\<rparr>)"
  by (simp add: setToken_def)

lemma token_setToken [simp]: "token (setToken now tok e w) = tok"
  by (simp add: setToken_def clear_stored_def Let_def split: option.split)

lemma has_window_setToken [simp]: "has_window (setToken now tok e w) = has_window w"
  by (simp add: setToken_def clear_stored_def Let_def split: option.split)

lemma wf_world_constructor: "wf_world (constructor parseInt base w)"
  by (simp add: wf_world_def constructor_def Let_def)

lemma wf_world_setToken: "wf_world w \<Longrightarrow> wf_world (setToken now tok e w)"
  by (auto simp add: wf_world_def setToken_def clear_stored_def Let_def split: option.split)

lemma wf_world_on_401: "wf_world w \<Longrightarrow> wf_world (on_401 now w)"
  by (auto simp add: wf_world_def on_401_def setToken_null flag_and_redirect_def
      clear_stored_def Let_def)

lemma has_window_handle_response [simp]:
  "has_window (snd (handle_response now r w)) = has_window w"
  by (simp add: handle_response_def on_401_def flag_and_redirect_def Let_def
      split: sum.split)

lemma tokenExpiresAt_handle_response:
  "tokenExpiresAt (snd (handle_response now r w)) = tokenExpiresAt w
   \<or> tokenExpiresAt (snd (handle_response now r w)) = None"
  by (simp add: handle_response_def on_401_def setToken_null flag_and_redirect_def
      clear_stored_def Let_def split: sum.split)

lemma wf_world_handle_response:
  assumes "wf_world w"
  shows "wf_world (snd (handle_response now r w))"
  using assms tokenExpiresAt_handle_response [of now r w]
  by (auto simp add: wf_world_def)

lemma request_expired:
  assumes "truthy_str (token w)" and "isTokenExpired now w"
  shows "request fetch now endpoint options w =
           (Inl session_expired_error,
            if has_window w then flag_and_redirect (setToken now None None w)
            else setToken now None None w)"
  using assms by (simp add: request_def Let_def)

lemma request_rejected:
  assumes "\<not> (truthy_str (token w) \<and> isTokenExpired now w)"
    and "fetch (fetch_call_of endpoint options w) = Rejected e"
  shows "request fetch now endpoint options w =
           (Inl (catch_block e),
            w\<lparr>fetch_calls := fetch_calls w @ [fetch_call_of endpoint options w]\<rparr>)"
  using assms by (auto simp add: request_def Let_def)

lemma request_resolved:
  assumes "\<not> (truthy_str (token w) \<and> isTokenExpired now w)"
    and "fetch (fetch_call_of endpoint options w) = Resolved r"
  shows "request fetch now endpoint options w =
           (case handle_response now r
                   (w\<lparr>fetch_calls := fetch_calls w @ [fetch_call_of endpoint options w]\<rparr>) of
              (Inl error, w2) \<Rightarrow> (Inl (catch_block error), w2)
            | (Inr v, w2) \<Rightarrow> (Inr v, w2))"
  using assms by (auto simp add: request_def Let_def)

lemma snd_request_resolved:
  assumes "\<not> (truthy_str (token w) \<and> isTokenExpired now w)"
    and "fetch (fetch_call_of endpoint options w) = Resolved r"
  shows "snd (request fetch now endpoint options w) =
           snd (handle_response now r
                  (w\<lparr>fetch_calls := fetch_calls w @ [fetch_call_of endpoint options w]\<rparr>))"
  using assms by (simp add: request_resolved split: prod.split sum.split)

lemma has_window_request [simp]:
  "has_window (snd (request fetch now endpoint options w)) = has_window w"
proof (cases "truthy_str (token w) \<and> isTokenExpired now w")
  case True
  then show ?thesis by (simp add: request_expired flag_and_redirect_def)
next
  case False
  then show ?thesis
    by (cases "fetch (fetch_call_of endpoint options w)")
       (simp_all add: request_rejected snd_request_resolved)
qed

lemma wf_world_request:
  assumes "wf_world w"
  shows "wf_world (snd (request fetch now endpoint options w))"
proof (cases "truthy_str (token w) \<and> isTokenExpired now w")
  case True
  with assms show ?thesis
    by (auto simp add: request_expired wf_world_def flag_and_redirect_def setToken_null
        clear_stored_def)
next
  case False
  show ?thesis
  proof (cases "fetch (fetch_call_of endpoint options w)")
    case (Rejected e)
    with False assms show ?thesis by (simp add: request_rejected wf_world_def)
  next
    case (Resolved r)
    have "wf_world (w\<lparr>fetch_calls := fetch_calls w @ [fetch_call_of endpoint options w]\<rparr>)"
      using assms by (simp add: wf_world_def)
    then show ?thesis
      using False Resolved by (simp add: snd_request_resolved wf_world_handle_response)
  qed
qed

lemma tokenExpiresAt_request_no_window:
  assumes "\<not> has_window w"
  shows "tokenExpiresAt (snd (request fetch now endpoint options w)) = tokenExpiresAt w"
proof (cases "truthy_str (token w) \<and> isTokenExpired now w")
  case True
  with assms show ?thesis by (simp add: request_expired setToken_null)
next
  case False
  show ?thesis
  proof (cases "fetch (fetch_call_of endpoint options w)")
    case (Rejected e)
    with False show ?thesis by (simp add: request_rejected)
  next
    case (Resolved r)
    have "tokenExpiresAt (snd (handle_response now r w')) = tokenExpiresAt w'"
      if "\<not> has_window w'" for w'
      using that
      by (simp add: handle_response_def on_401_def setToken_null Let_def split: sum.split)
    with False Resolved assms show ?thesis by (simp add: snd_request_resolved)
  qed
qed

lemma wf_world_logout: "wf_world w \<Longrightarrow> wf_world (logout fetch now w)"
  by (simp add: logout_def case_prod_beta wf_world_setToken wf_world_request)

lemma wf_world_checkTokenExpiration:
  "wf_world w \<Longrightarrow> wf_world (snd (checkTokenExpiration now T w))"
  by (auto simp add: checkTokenExpiration_def wf_world_def getToken_def getTokenExpiresAt_def
      setToken_null clear_stored_def Let_def split: option.split jsnum.split)

lemma expired_has_expiry:
  assumes "truthy_str (token w)" and "isTokenExpired now w"
  shows "truthy_num (tokenExpiresAt w)"
  using assms by (simp add: isTokenExpired_def split: if_splits)

lemma truthy_num_Some: "truthy_num x \<Longrightarrow> \<exists>e. x = Some (Num e) \<and> e \<noteq> 0"
  by (cases x rule: truthy_num.cases) auto

lemma expiry_needs_window:
  assumes "wf_world w" and "truthy_num (tokenExpiresAt w)"
  shows "has_window w"
  using assms truthy_num_Some [of "tokenExpiresAt w"] by (auto simp add: wf_world_def)

lemma floor_div_is_floor: "floor_div a 1000 = \<lfloor>real_of_int a / 1000\<rfloor>"
  by (metis of_int_numeral floor_divide_of_int_eq floor_div_def)

lemma ceil_div_is_ceiling: "ceil_div a 60 = \<lceil>real_of_int a / 60\<rceil>"
  by (metis ceil_div_def ceiling_divide_eq_div of_int_numeral)

section \<open>Claims about the session store\<close>

text \<open>
  Claim C3 says that \<^verbatim>\<open>setToken\<close> never updates one of token and expiry while leaving a value
  of a previous session in the other. It does: \<^verbatim>\<open>setToken("new")\<close> in a session that holds token
  \<^verbatim>\<open>tok\<close> with expiry 5000 stores the new token and keeps the expiry 5000, in memory and in
  \<^verbatim>\<open>localStorage\<close>.
\<close>

theorem setToken_stale_expiry_counterexample:
  "getToken browser_world = Some ''tok''
   \<and> getTokenExpiresAt browser_world = Some (Num 5000)
   \<and> getToken (setToken 9000 (Some ''new'') None browser_world) = Some ''new''
   \<and> getTokenExpiresAt (setToken 9000 (Some ''new'') None browser_world) = Some (Num 5000)
   \<and> localStorage (setToken 9000 (Some ''new'') None browser_world) ''auth_token'' = Some ''new''
   \<and> localStorage (setToken 9000 (Some ''new'') None browser_world) ''auth_token_expires_at''
        = Some ''5000''"
  by (simp add: setToken_def getToken_def getTokenExpiresAt_def browser_world_def)

text \<open>
  Claim C3, amended. In a browser, \<^verbatim>\<open>setToken\<close> with a \<^verbatim>\<open>null\<close> or empty token clears both the
  expiry and the two stored values; with a non-empty token and a non-zero
  \<^verbatim>\<open>expiresInSeconds\<close> it writes the token and the expiry \<open>now + expiresInSeconds * 1000\<close>
  together, in memory and in \<^verbatim>\<open>localStorage\<close>; with a non-empty token and
  \<^verbatim>\<open>expiresInSeconds\<close> omitted or 0 it writes the token only and leaves the expiry as it
  was. Without a window only the token in memory changes.
\<close>

theorem setToken_writes:
  "let w' = setToken now tok expiresInSeconds w in
     if has_window w then
       (tok = None \<or> tok = Some [] \<longrightarrow>
          getToken w' = tok \<and> getTokenExpiresAt w' = None
          \<and> localStorage w' ''auth_token'' = None
          \<and> localStorage w' ''auth_token_expires_at'' = None)
     \<and> (\<forall>t n. tok = Some t \<and> t \<noteq> [] \<and> expiresInSeconds = Some n \<and> n \<noteq> 0 \<longrightarrow>
          getToken w' = Some t \<and> getTokenExpiresAt w' = Some (Num (now + n * 1000))
          \<and> localStorage w' ''auth_token'' = Some t
          \<and> localStorage w' ''auth_token_expires_at'' = Some (show_int (now + n * 1000)))
     \<and> (\<forall>t. tok = Some t \<and> t \<noteq> [] \<and> (expiresInSeconds = None \<or> expiresInSeconds = Some 0) \<longrightarrow>
          getToken w' = Some t \<and> getTokenExpiresAt w' = getTokenExpiresAt w
          \<and> localStorage w' ''auth_token'' = Some t
          \<and> localStorage w' ''auth_token_expires_at'' = localStorage w ''auth_token_expires_at'')
     else w' = w\<lparr>token := tok\<rparr>"
proof (cases "has_window w")
  case False
  then show ?thesis by (simp add: setToken_def)
next
  case True
  have cleared: "getToken (setToken now tok expiresInSeconds w) = tok
      \<and> getTokenExpiresAt (setToken now tok expiresInSeconds w) = None
      \<and> localStorage (setToken now tok expiresInSeconds w) ''auth_token'' = None
      \<and> localStorage (setToken now tok expiresInSeconds w) ''auth_token_expires_at'' = None"
    if "tok = None \<or> tok = Some []"
    using that True
    by (auto simp add: setToken_def clear_stored_def getToken_def getTokenExpiresAt_def)
  have both: "getToken (setToken now tok expiresInSeconds w) = Some t
      \<and> getTokenExpiresAt (setToken now tok expiresInSeconds w) = Some (Num (now + n * 1000))
      \<and> localStorage (setToken now tok expiresInSeconds w) ''auth_token'' = Some t
      \<and> localStorage (setToken now tok expiresInSeconds w) ''auth_token_expires_at''
           = Some (show_int (now + n * 1000))"
    if "tok = Some t \<and> t \<noteq> [] \<and> expiresInSeconds = Some n \<and> n \<noteq> 0" for t n
    using that True
    by (simp add: setToken_def getToken_def getTokenExpiresAt_def Let_def)
  have token_only: "getToken (setToken now tok expiresInSeconds w) = Some t
      \<and> getTokenExpiresAt (setToken now tok expiresInSeconds w) = getTokenExpiresAt w
      \<and> localStorage (setToken now tok expiresInSeconds w) ''auth_token'' = Some t
      \<and> localStorage (setToken now tok expiresInSeconds w) ''auth_token_expires_at''
           = localStorage w ''auth_token_expires_at''"
    if "tok = Some t \<and> t \<noteq> [] \<and> (expiresInSeconds = None \<or> expiresInSeconds = Some 0)" for t
    using that True
    by (auto simp add: setToken_def getToken_def getTokenExpiresAt_def Let_def)
  from True cleared both token_only show ?thesis
    unfolding Let_def by (simp only: if_True) blast
qed

theorem setToken_writes_witness:
  "getToken (setToken 9000 (Some ''new'') (Some 3600) browser_world) = Some ''new''
   \<and> getTokenExpiresAt (setToken 9000 (Some ''new'') (Some 3600) browser_world) = Some (Num 3609000)
   \<and> localStorage (setToken 9000 (Some ''new'') (Some 3600) browser_world) ''auth_token_expires_at''
        = Some ''3609000''
   \<and> getToken (setToken 9000 None None browser_world) = None
   \<and> getTokenExpiresAt (setToken 9000 None None browser_world) = None
   \<and> localStorage (setToken 9000 None None browser_world) ''auth_token'' = None
   \<and> getToken (setToken 9000 (Some ''next'') None browser_world) = Some ''next''
   \<and> getTokenExpiresAt (setToken 9000 (Some ''next'') None browser_world) = Some (Num 5000)
   \<and> setToken 9000 (Some ''new'') (Some 3600) server_world = server_world\<lparr>token := Some ''new''\<rparr>"
proof -
  have win: "has_window browser_world" "\<not> has_window server_world"
    by (simp_all add: browser_world_def server_world_def)
  have old: "getTokenExpiresAt browser_world = Some (Num 5000)"
    by (simp add: getTokenExpiresAt_def browser_world_def)
  have str: "show_int 3609000 = ''3609000''"
    by (simp add: show_int_def show_nat.simps digit_char_def)
  from setToken_writes [of 9000 "Some ''new''" "Some 3600" browser_world]
    setToken_writes [of 9000 None None browser_world]
    setToken_writes [of 9000 "Some ''next''" None browser_world]
    setToken_writes [of 9000 "Some ''new''" "Some 3600" server_world]
  show ?thesis using win old str by (simp add: Let_def)
qed

text \<open>
  Claim C5 says that \<^verbatim>\<open>isTokenExpired()\<close> is true when an expiry is recorded and the current time
  is at or past it. \<^verbatim>\<open>setToken("abc", -1)\<close> at time 1000 records the expiry 0, in memory and as
  \<^verbatim>\<open>"0"\<close> in \<^verbatim>\<open>localStorage\<close>; at time 1000, which is past 0, \<^verbatim>\<open>isTokenExpired()\<close> is false,
  because \<^verbatim>\<open>!this.tokenExpiresAt\<close> holds of 0.
\<close>

theorem isTokenExpired_zero_expiry_counterexample:
  "getToken (setToken 1000 (Some ''abc'') (Some (- 1)) browser_world) = Some ''abc''
   \<and> getTokenExpiresAt (setToken 1000 (Some ''abc'') (Some (- 1)) browser_world) = Some (Num 0)
   \<and> localStorage (setToken 1000 (Some ''abc'') (Some (- 1)) browser_world)
        ''auth_token_expires_at'' = Some ''0''
   \<and> (0::int) \<le> 1000
   \<and> \<not> isTokenExpired 1000 (setToken 1000 (Some ''abc'') (Some (- 1)) browser_world)"
  by (simp add: setToken_def getToken_def getTokenExpiresAt_def isTokenExpired_def
      browser_world_def show_int_def show_nat.simps digit_char_def)

text \<open>
  Claim C5, amended. For every state and current time, \<^verbatim>\<open>isTokenExpired()\<close> is true exactly
  when no token is present (\<^verbatim>\<open>null\<close> or the empty string), or a non-zero expiry is recorded
  and the current time is at or past it. A token with no expiry, or with the expiry 0 or
  \<^verbatim>\<open>NaN\<close>, is reported as not expired.
\<close>

theorem isTokenExpired_iff:
  "isTokenExpired now w \<longleftrightarrow>
     (getToken w = None \<or> getToken w = Some [])
     \<or> (\<exists>e. getTokenExpiresAt w = Some (Num e) \<and> e \<noteq> 0 \<and> e \<le> now)"
proof (cases "token w")
  case None
  then show ?thesis by (simp add: isTokenExpired_def getToken_def)
next
  case (Some t)
  show ?thesis
  proof (cases "tokenExpiresAt w")
    case None
    with Some show ?thesis by (simp add: isTokenExpired_def getToken_def getTokenExpiresAt_def)
  next
    case (Some x)
    with \<open>token w = Some t\<close> show ?thesis
      by (cases x) (auto simp add: isTokenExpired_def getToken_def getTokenExpiresAt_def)
  qed
qed

theorem isTokenExpired_iff_witness:
  "isTokenExpired 5000 browser_world \<and> \<not> isTokenExpired 4999 browser_world
   \<and> \<not> isTokenExpired 9000 (browser_world\<lparr>tokenExpiresAt := None\<rparr>)
   \<and> isTokenExpired 0 (browser_world\<lparr>token := None\<rparr>)"
  using isTokenExpired_iff [of 5000 browser_world] isTokenExpired_iff [of 4999 browser_world]
    isTokenExpired_iff [of 9000 "browser_world\<lparr>tokenExpiresAt := None\<rparr>"]
    isTokenExpired_iff [of 0 "browser_world\<lparr>token := None\<rparr>"]
  by (simp add: browser_world_def getToken_def getTokenExpiresAt_def)

text \<open>
  Claim C10 says that \<^verbatim>\<open>setToken\<close> with a non-null token and no \<^verbatim>\<open>expiresInSeconds\<close> leaves the
  stored expiry unchanged. The empty string is a non-null token, and \<^verbatim>\<open>setToken("")\<close> takes the
  \<^verbatim>\<open>else\<close> branch of \<^verbatim>\<open>if (token)\<close>: the expiry is removed from memory and from
  \<^verbatim>\<open>localStorage\<close>.
\<close>

theorem setToken_empty_token_counterexample:
  "getTokenExpiresAt browser_world = Some (Num 5000)
   \<and> localStorage browser_world ''auth_token_expires_at'' = Some ''5000''
   \<and> getTokenExpiresAt (setToken 9000 (Some '''') None browser_world) = None
   \<and> localStorage (setToken 9000 (Some '''') None browser_world) ''auth_token_expires_at'' = None"
  by (simp add: setToken_def clear_stored_def getTokenExpiresAt_def browser_world_def)

text \<open>
  Claim C10, amended. For every state, \<^verbatim>\<open>setToken\<close> with a non-empty token and
  \<^verbatim>\<open>expiresInSeconds\<close> omitted or 0 stores the token and leaves the expiry unchanged in memory
  and in \<^verbatim>\<open>localStorage\<close>. The new token inherits the old expiry: \<^verbatim>\<open>isTokenExpired()\<close> at a
  later time is true exactly when the old expiry is a non-zero number at or before that
  time, so a token stored after the old expiry reports as expired at once.
\<close>

theorem setToken_keeps_expiry:
  assumes "t \<noteq> []" and "expiresInSeconds = None \<or> expiresInSeconds = Some 0"
  shows "let w' = setToken now (Some t) expiresInSeconds w in
           getToken w' = Some t
         \<and> getTokenExpiresAt w' = getTokenExpiresAt w
         \<and> localStorage w' ''auth_token_expires_at'' = localStorage w ''auth_token_expires_at''
         \<and> (isTokenExpired later w' \<longleftrightarrow>
              (\<exists>x. getTokenExpiresAt w = Some (Num x) \<and> x \<noteq> 0 \<and> x \<le> later))"
proof -
  let ?w' = "setToken now (Some t) expiresInSeconds w"
  have keep: "getToken ?w' = Some t" "getTokenExpiresAt ?w' = getTokenExpiresAt w"
    "localStorage ?w' ''auth_token_expires_at'' = localStorage w ''auth_token_expires_at''"
    using assms by (auto simp add: setToken_def getToken_def getTokenExpiresAt_def Let_def)
  have "isTokenExpired later ?w' \<longleftrightarrow>
      (\<exists>x. getTokenExpiresAt w = Some (Num x) \<and> x \<noteq> 0 \<and> x \<le> later)"
  proof (cases "tokenExpiresAt w")
    case None
    with keep assms(1) show ?thesis
      by (simp add: isTokenExpired_def getToken_def getTokenExpiresAt_def)
  next
    case (Some x)
    with keep assms(1) show ?thesis
      by (cases x) (auto simp add: isTokenExpired_def getToken_def getTokenExpiresAt_def)
  qed
  with keep show ?thesis by (simp add: Let_def)
qed

theorem setToken_keeps_expiry_witness:
  "getToken (setToken 9000 (Some ''new'') None browser_world) = Some ''new''
   \<and> getTokenExpiresAt (setToken 9000 (Some ''new'') None browser_world) = Some (Num 5000)
   \<and> isTokenExpired 9000 (setToken 9000 (Some ''new'') None browser_world)
   \<and> getTokenExpiresAt (setToken 9000 (Some ''new'') (Some 0) browser_world) = Some (Num 5000)
   \<and> isTokenExpired 9000 (setToken 9000 (Some ''new'') (Some 0) browser_world)"
proof -
  have ne: "''new'' \<noteq> []" by simp
  have old: "getTokenExpiresAt browser_world = Some (Num 5000)"
    by (simp add: getTokenExpiresAt_def browser_world_def)
  from setToken_keeps_expiry [OF ne, of None 9000 browser_world 9000]
    setToken_keeps_expiry [OF ne, of "Some 0" 9000 browser_world 9000]
  show ?thesis using old by (simp add: Let_def)
qed

section \<open>Claims about the request pipeline\<close>


text \<open>
  Claim C1. A call of the request pipeline made while a token is stored (\<^verbatim>\<open>this.token\<close> is a
  non-empty string, the test of line 80) and \<^verbatim>\<open>isTokenExpired()\<close> is true performs no
  network call: the list of \<^verbatim>\<open>fetch\<close> calls is unchanged. The session is cleared in memory
  and in \<^verbatim>\<open>localStorage\<close>, the flag \<^verbatim>\<open>session_expired\<close> is set in \<^verbatim>\<open>sessionStorage\<close>, the
  location is sent to \<^verbatim>\<open>/login\<close>, and the call fails with the object
  \<^verbatim>\<open>{message: "Your session has expired. Please login again.", status: 401}\<close>. The world
  is any world the program can reach (\<open>wf_world\<close>); such a world with an expired token has a
  window.
\<close>

theorem preflight_expired:
  assumes wf: "wf_world w"
    and tok: "truthy_str (token w)"
    and exp: "isTokenExpired now w"
  shows "let w' = snd (request fetch now endpoint options w) in
           fst (request fetch now endpoint options w) =
             Inl (ApiError (JStr ''Your session has expired. Please login again.'') 401)
         \<and> fetch_calls w' = fetch_calls w
         \<and> getToken w' = None
         \<and> getTokenExpiresAt w' = None
         \<and> localStorage w' ''auth_token'' = None
         \<and> localStorage w' ''auth_token_expires_at'' = None
         \<and> has_window w
         \<and> sessionStorage w' ''session_expired'' = Some ''true''
         \<and> href_assigned w' = href_assigned w @ [''/login'']"
proof -
  from tok exp have "truthy_num (tokenExpiresAt w)" by (rule expired_has_expiry)
  with wf have win: "has_window w" by (rule expiry_needs_window)
  have req: "request fetch now endpoint options w =
      (Inl session_expired_error, flag_and_redirect (clear_stored (w\<lparr>token := None\<rparr>)))"
    using tok exp win by (simp add: request_expired setToken_null)
  show ?thesis
    using win
    by (simp add: req session_expired_error_def flag_and_redirect_def clear_stored_def
        getToken_def getTokenExpiresAt_def)
qed

theorem preflight_expired_witness:
  "fst (request (\<lambda>c. Resolved unauthorized_response) 6000 ''/api/v1/tasks'' no_options
          browser_world) =
     Inl (ApiError (JStr ''Your session has expired. Please login again.'') 401)
   \<and> fetch_calls (snd (request (\<lambda>c. Resolved unauthorized_response) 6000 ''/api/v1/tasks''
          no_options browser_world)) = []
   \<and> getToken (snd (request (\<lambda>c. Resolved unauthorized_response) 6000 ''/api/v1/tasks''
          no_options browser_world)) = None
   \<and> sessionStorage (snd (request (\<lambda>c. Resolved unauthorized_response) 6000 ''/api/v1/tasks''
          no_options browser_world)) ''session_expired'' = Some ''true''"
proof -
  have wf: "wf_world browser_world" by (simp add: wf_world_def browser_world_def)
  have tok: "truthy_str (token browser_world)" by (simp add: browser_world_def)
  have exp: "isTokenExpired 6000 browser_world"
    by (simp add: isTokenExpired_def browser_world_def)
  from preflight_expired [OF wf tok exp, of "\<lambda>c. Resolved unauthorized_response"
      "''/api/v1/tasks''" no_options]
  show ?thesis by (simp add: Let_def browser_world_def)
qed

text \<open>
  Claim C2. A call of the request pipeline whose \<^verbatim>\<open>fetch\<close> resolves with status 401 clears the
  session: \<^verbatim>\<open>getToken()\<close> is \<^verbatim>\<open>null\<close> afterwards, and in a browser the expiry and both
  stored values are gone. The flag \<^verbatim>\<open>session_expired\<close> is set and \<^verbatim>\<open>window.location.href\<close>
  is assigned \<^verbatim>\<open>/login\<close> exactly when there is a window whose path does not include
  \<^verbatim>\<open>/login\<close>; otherwise \<^verbatim>\<open>sessionStorage\<close> and the location are left as they were. The call
  fails.
\<close>

theorem unauthorized_clears_session:
  assumes pre: "\<not> (truthy_str (token w) \<and> isTokenExpired now w)"
    and resp: "fetch (fetch_call_of endpoint options w) = Resolved r"
    and st: "status r = 401"
  shows "let w' = snd (request fetch now endpoint options w);
             away_from_login = (has_window w \<and> \<not> includes_str (pathname w) ''/login'') in
           getToken w' = None
         \<and> sessionStorage w' =
             (if away_from_login then (sessionStorage w)(''session_expired'' \<mapsto> ''true'')
              else sessionStorage w)
         \<and> href_assigned w' =
             (if away_from_login then href_assigned w @ [''/login''] else href_assigned w)
         \<and> (if has_window w
              then getTokenExpiresAt w' = None
                 \<and> localStorage w' ''auth_token'' = None
                 \<and> localStorage w' ''auth_token_expires_at'' = None
              else getTokenExpiresAt w' = getTokenExpiresAt w)
         \<and> isl (fst (request fetch now endpoint options w))"
proof -
  let ?w1 = "w\<lparr>fetch_calls := fetch_calls w @ [fetch_call_of endpoint options w]\<rparr>"
  have nok: "\<not> ok r" and n204: "status r \<noteq> 204" using st by (simp_all add: ok_def)
  have snd_eq: "snd (request fetch now endpoint options w) = on_401 now ?w1"
    using pre resp nok n204 st
    by (simp add: snd_request_resolved handle_response_def Let_def split: sum.split)
  have fst_eq: "isl (fst (request fetch now endpoint options w))"
    using pre resp nok n204
    by (simp add: request_resolved handle_response_def Let_def split: sum.split)
  show ?thesis
    using fst_eq
    by (simp add: snd_eq on_401_def setToken_null flag_and_redirect_def clear_stored_def
        getToken_def getTokenExpiresAt_def Let_def)
qed

theorem unauthorized_clears_session_witness:
  "getToken (snd (request (\<lambda>c. Resolved unauthorized_response) 4000 ''/api/v1/tasks''
      no_options browser_world)) = None
   \<and> sessionStorage (snd (request (\<lambda>c. Resolved unauthorized_response) 4000 ''/api/v1/tasks''
      no_options browser_world)) ''session_expired'' = Some ''true''
   \<and> href_assigned (snd (request (\<lambda>c. Resolved unauthorized_response) 4000 ''/api/v1/tasks''
      no_options browser_world)) = [''/login'']
   \<and> sessionStorage (snd (request (\<lambda>c. Resolved unauthorized_response) 4000 ''/api/v1/tasks''
      no_options (browser_world\<lparr>pathname := ''/login''\<rparr>))) ''session_expired'' = None
   \<and> href_assigned (snd (request (\<lambda>c. Resolved unauthorized_response) 4000 ''/api/v1/tasks''
      no_options (browser_world\<lparr>pathname := ''/login''\<rparr>))) = []"
proof -
  have pre: "\<not> (truthy_str (token browser_world) \<and> isTokenExpired 4000 browser_world)"
    by (simp add: isTokenExpired_def browser_world_def)
  have pre': "\<not> (truthy_str (token (browser_world\<lparr>pathname := ''/login''\<rparr>))
      \<and> isTokenExpired 4000 (browser_world\<lparr>pathname := ''/login''\<rparr>))"
    by (simp add: isTokenExpired_def browser_world_def)
  have st: "status unauthorized_response = 401" by (simp add: unauthorized_response_def)
  have tasks: "\<not> includes_str (pathname browser_world) ''/login''"
    by (simp add: browser_world_def)
  have login: "includes_str (pathname (browser_world\<lparr>pathname := ''/login''\<rparr>)) ''/login''"
    by simp
  have win: "has_window browser_world" by (simp add: browser_world_def)
  have empty: "sessionStorage browser_world = Map.empty" "href_assigned browser_world = []"
    by (simp_all add: browser_world_def)
  from unauthorized_clears_session [where fetch = "\<lambda>c. Resolved unauthorized_response"
      and endpoint = "''/api/v1/tasks''" and options = no_options, OF pre refl st]
    unauthorized_clears_session [where fetch = "\<lambda>c. Resolved unauthorized_response"
      and endpoint = "''/api/v1/tasks''" and options = no_options, OF pre' refl st]
  show ?thesis using tasks login win empty by (simp add: Let_def)
qed

text \<open>
  Claim C4. After \<^verbatim>\<open>logout()\<close> the session is cleared locally, \<^verbatim>\<open>getToken()\<close> is \<^verbatim>\<open>null\<close>,
  whatever the network does (resolve with any response, reject with any value) and
  whatever the state before, a token that the pre-flight check finds expired included.
  In a browser the expiry and both stored values are removed as well.
\<close>

theorem logout_clears:
  "getToken (logout fetch now w) = None
   \<and> (if has_window w
       then getTokenExpiresAt (logout fetch now w) = None
          \<and> localStorage (logout fetch now w) ''auth_token'' = None
          \<and> localStorage (logout fetch now w) ''auth_token_expires_at'' = None
       else getTokenExpiresAt (logout fetch now w) = getTokenExpiresAt w)"
proof -
  obtain outcome w1 where req: "request fetch now ''/api/v1/auth/logout''
      \<lparr>opt_method = Some ''POST'', opt_body = None, opt_headers = Map.empty\<rparr> w = (outcome, w1)"
    by (cases "request fetch now ''/api/v1/auth/logout''
      \<lparr>opt_method = Some ''POST'', opt_body = None, opt_headers = Map.empty\<rparr> w")
  then have out: "logout fetch now w = setToken now None None w1"
    by (simp add: logout_def)
  have "w1 = snd (request fetch now ''/api/v1/auth/logout''
      \<lparr>opt_method = Some ''POST'', opt_body = None, opt_headers = Map.empty\<rparr> w)"
    by (simp add: req)
  then have win: "has_window w1 = has_window w"
    and keep: "\<not> has_window w \<Longrightarrow> tokenExpiresAt w1 = tokenExpiresAt w"
    by (simp_all add: tokenExpiresAt_request_no_window)
  show ?thesis
    using win keep
    by (simp add: out setToken_null clear_stored_def getToken_def getTokenExpiresAt_def)
qed

theorem logout_clears_witness:
  "getToken (logout (\<lambda>c. Rejected (Err ''Network error'' [])) 4000 browser_world) = None
   \<and> getToken (logout (\<lambda>c. Resolved unauthorized_response) 4000 browser_world) = None
   \<and> getToken (logout (\<lambda>c. Resolved unauthorized_response) 6000 browser_world) = None
   \<and> localStorage (logout (\<lambda>c. Rejected (Err ''Network error'' [])) 4000 browser_world)
        ''auth_token'' = None"
  using logout_clears [of "\<lambda>c. Rejected (Err ''Network error'' [])" 4000 browser_world]
    logout_clears [of "\<lambda>c. Resolved unauthorized_response" 4000 browser_world]
    logout_clears [of "\<lambda>c. Resolved unauthorized_response" 6000 browser_world]
  by (simp add: browser_world_def)

text \<open>
  Claim C7. When \<^verbatim>\<open>fetch\<close> itself rejects with \<open>e\<close>, the pipeline fails with \<open>e\<close> unchanged if
  \<open>e\<close> is an object with a \<^verbatim>\<open>status\<close> property, and otherwise with
  \<^verbatim>\<open>{message, status: 0}\<close> where the message is chosen from the text of \<open>e\<close>: an \<^verbatim>\<open>Error\<close>
  whose message includes \<^verbatim>\<open>Failed to fetch\<close> gives a message that contains \<^verbatim>\<open>connect\<close>, else
  \<^verbatim>\<open>NetworkError\<close> gives the network message, else \<^verbatim>\<open>CORS\<close> the temporarily-unavailable
  message, any other \<^verbatim>\<open>Error\<close> and any other thrown value a generic retry message. The
  stored token is untouched.
\<close>

theorem transport_failure_normalized:
  assumes pre: "\<not> (truthy_str (token w) \<and> isTokenExpired now w)"
    and rej: "fetch (fetch_call_of endpoint options w) = Rejected e"
  shows "fst (request fetch now endpoint options w) =
           Inl (if carries_status e then e else ApiError (JStr (classify e)) 0)
       \<and> getToken (snd (request fetch now endpoint options w)) = getToken w
       \<and> (\<forall>m ps. includes_str m ''Failed to fetch'' \<longrightarrow>
              includes_str (classify (Err m ps)) ''connect'')
       \<and> (\<forall>m ps. \<not> includes_str m ''Failed to fetch'' \<and> includes_str m ''NetworkError'' \<longrightarrow>
              classify (Err m ps) =
                ''Network error. Please check your internet connection and try again.'')
       \<and> (\<forall>m ps. \<not> includes_str m ''Failed to fetch'' \<and> \<not> includes_str m ''NetworkError''
                \<and> includes_str m ''CORS'' \<longrightarrow>
              classify (Err m ps) = ''Service temporarily unavailable. Please try again later.'')
       \<and> (\<forall>m ps. \<not> includes_str m ''Failed to fetch'' \<and> \<not> includes_str m ''NetworkError''
                \<and> \<not> includes_str m ''CORS'' \<longrightarrow>
              classify (Err m ps) = ''An error occurred. Please try again.'')
       \<and> (\<forall>v. classify (Val v) = ''An unexpected error occurred. Please try again.'')"
proof -
  have "request fetch now endpoint options w =
      (Inl (catch_block e),
       w\<lparr>fetch_calls := fetch_calls w @ [fetch_call_of endpoint options w]\<rparr>)"
    using pre rej by (rule request_rejected)
  then have res: "fst (request fetch now endpoint options w) =
      Inl (if carries_status e then e else ApiError (JStr (classify e)) 0)"
    and tok: "getToken (snd (request fetch now endpoint options w)) = getToken w"
    by (simp_all add: catch_block_def getToken_def)
  have connect: "includes_str
      ''Unable to connect to the server. Please check your internet connection and try again.''
      ''connect''"
    by simp
  show ?thesis using res tok connect by simp
qed

theorem transport_failure_normalized_witness:
  "fst (request (\<lambda>c. Rejected (Err ''Failed to fetch'' [])) 4000 ''/api/v1/tasks'' no_options
          browser_world) =
     Inl (ApiError (JStr
       ''Unable to connect to the server. Please check your internet connection and try again.'')
       0)
   \<and> fst (request (\<lambda>c. Rejected (Err ''NetworkError when attempting to fetch resource.'' []))
          4000 ''/api/v1/tasks'' no_options browser_world) =
     Inl (ApiError (JStr
       ''Network error. Please check your internet connection and try again.'') 0)
   \<and> fst (request (\<lambda>c. Rejected (Err ''CORS request did not succeed'' []))
          4000 ''/api/v1/tasks'' no_options browser_world) =
     Inl (ApiError (JStr ''Service temporarily unavailable. Please try again later.'') 0)
   \<and> fst (request (\<lambda>c. Rejected (Err ''The operation was aborted.'' []))
          4000 ''/api/v1/tasks'' no_options browser_world) =
     Inl (ApiError (JStr ''An error occurred. Please try again.'') 0)
   \<and> fst (request (\<lambda>c. Rejected (Val (JStr ''boom'')))
          4000 ''/api/v1/tasks'' no_options browser_world) =
     Inl (ApiError (JStr ''An unexpected error occurred. Please try again.'') 0)
   \<and> fst (request (\<lambda>c. Rejected (ApiError (JStr ''teapot'') 418)) 4000 ''/api/v1/tasks''
          no_options browser_world) = Inl (ApiError (JStr ''teapot'') 418)"
proof -
  have pre: "\<not> (truthy_str (token browser_world) \<and> isTokenExpired 4000 browser_world)"
    by (simp add: isTokenExpired_def browser_world_def)
  from transport_failure_normalized [where fetch = "\<lambda>c. Rejected (Err ''Failed to fetch'' [])"
      and endpoint = "''/api/v1/tasks''" and options = no_options, OF pre refl]
    transport_failure_normalized [where fetch = "\<lambda>c. Rejected (Err ''NetworkError when attempting to fetch resource.'' [])"
      and endpoint = "''/api/v1/tasks''" and options = no_options, OF pre refl]
    transport_failure_normalized [where fetch = "\<lambda>c. Rejected (Err ''CORS request did not succeed'' [])"
      and endpoint = "''/api/v1/tasks''" and options = no_options, OF pre refl]
    transport_failure_normalized [where fetch = "\<lambda>c. Rejected (Err ''The operation was aborted.'' [])"
      and endpoint = "''/api/v1/tasks''" and options = no_options, OF pre refl]
    transport_failure_normalized [where fetch = "\<lambda>c. Rejected (Val (JStr ''boom''))"
      and endpoint = "''/api/v1/tasks''" and options = no_options, OF pre refl]
    transport_failure_normalized [where fetch = "\<lambda>c. Rejected (ApiError (JStr ''teapot'') 418)"
      and endpoint = "''/api/v1/tasks''" and options = no_options, OF pre refl]
  show ?thesis by (simp add: ApiError_def)
qed

lemma carries_status_ApiError [simp]: "carries_status (ApiError m st)"
  by (simp add: ApiError_def)

lemma catch_block_ApiError [simp]: "catch_block (ApiError m st) = ApiError m st"
  by (simp add: catch_block_def)

lemma not_ok_not_204: "\<not> ok r \<Longrightarrow> status r \<noteq> 204"
  by (auto simp add: ok_def)

lemma fst_request_error_response:
  assumes pre: "\<not> (truthy_str (token w) \<and> isTokenExpired now w)"
    and resp: "fetch (fetch_call_of endpoint options w) = Resolved r"
    and nok: "\<not> ok r"
  shows "fst (request fetch now endpoint options w) =
           (case (if isJson r then body_json r else Inr (JStr (body_text r))) of
              Inl e \<Rightarrow> Inl (catch_block e)
            | Inr errorBody \<Rightarrow>
                (case errorMessage_of errorBody r of
                   Inl e \<Rightarrow> Inl (catch_block e)
                 | Inr errorMessage \<Rightarrow> Inl (ApiError errorMessage (status r))))"
  using pre resp nok not_ok_not_204 [OF nok]
  by (simp add: request_resolved handle_response_def Let_def split: sum.split)

text \<open>
  Claim C6 says that an error body that is not JSON and holds only \<^verbatim>\<open>detail\<close> yields that
  \<^verbatim>\<open>detail\<close> value as the message. A 400 response of content type \<^verbatim>\<open>text/plain\<close> whose text
  is \<^verbatim>\<open>{"detail":"Title is required"}\<close> is read with \<^verbatim>\<open>text()\<close>, never parsed, and the message
  is the whole text.
\<close>

theorem error_body_message_counterexample:
  \<open>content_type text_detail_response = Some ''text/plain''
   \<and> \<not> isJson text_detail_response
   \<and> body_json text_detail_response = Inr (JObj [(''detail'', JStr ''Title is required'')])
   \<and> fst (request (\<lambda>c. Resolved text_detail_response) 4000 ''/api/v1/tasks'' no_options
          browser_world) =
       Inl (ApiError (JStr ''{"detail":"Title is required"}'') 400)
   \<and> fst (request (\<lambda>c. Resolved text_detail_response) 4000 ''/api/v1/tasks'' no_options
          browser_world) \<noteq>
       Inl (ApiError (JStr ''Title is required'') 400)\<close>
proof -
  have pre: "\<not> (truthy_str (token browser_world) \<and> isTokenExpired 4000 browser_world)"
    by (simp add: isTokenExpired_def browser_world_def)
  have nok: "\<not> ok text_detail_response" by (simp add: ok_def text_detail_response_def)
  have nj: "\<not> isJson text_detail_response" by (simp add: isJson_def text_detail_response_def)
  have "fst (request (\<lambda>c. Resolved text_detail_response) 4000 ''/api/v1/tasks'' no_options
          browser_world) = Inl (ApiError (JStr (body_text text_detail_response))
            (status text_detail_response))"
    using fst_request_error_response [where fetch = "\<lambda>c. Resolved text_detail_response"
        and endpoint = "''/api/v1/tasks''" and options = no_options, OF pre refl nok] nj
    by (simp add: errorMessage_of_def)
  then show ?thesis using nj by (simp add: text_detail_response_def ApiError_def)
qed

text \<open>
  Claim C6, amended. For every response outside 200..299 that the pipeline receives: when
  the content type is not JSON, the failure is \<^verbatim>\<open>{message, status}\<close> with the raw text body
  as message; when the content type is JSON and the body parses to an object, the message
  is the object's \<^verbatim>\<open>detail\<close> if that is truthy, else its \<^verbatim>\<open>message\<close> if truthy, else its
  \<^verbatim>\<open>title\<close> if truthy, else \<^verbatim>\<open>HTTP <status>: <statusText>\<close>. The status is the response's.
  So a JSON body with only \<^verbatim>\<open>detail\<close> yields that value, and a JSON object with none of the
  three yields the \<^verbatim>\<open>HTTP\<close> line.
\<close>

theorem error_body_message:
  assumes pre: "\<not> (truthy_str (token w) \<and> isTokenExpired now w)"
    and resp: "fetch (fetch_call_of endpoint options w) = Resolved r"
    and nok: "\<not> ok r"
  shows "let failure = fst (request fetch now endpoint options w) in
     (\<not> isJson r \<longrightarrow> failure = Inl (ApiError (JStr (body_text r)) (status r)))
   \<and> (\<forall>ps. isJson r \<and> body_json r = Inr (JObj ps) \<longrightarrow>
        (\<forall>d. truthy_prop (map_of ps ''detail'') = Some d \<longrightarrow>
              failure = Inl (ApiError d (status r)))
      \<and> (\<forall>m. truthy_prop (map_of ps ''detail'') = None
              \<and> truthy_prop (map_of ps ''message'') = Some m \<longrightarrow>
              failure = Inl (ApiError m (status r)))
      \<and> (\<forall>t. truthy_prop (map_of ps ''detail'') = None
              \<and> truthy_prop (map_of ps ''message'') = None
              \<and> truthy_prop (map_of ps ''title'') = Some t \<longrightarrow>
              failure = Inl (ApiError t (status r)))
      \<and> (truthy_prop (map_of ps ''detail'') = None
              \<and> truthy_prop (map_of ps ''message'') = None
              \<and> truthy_prop (map_of ps ''title'') = None \<longrightarrow>
              failure = Inl (ApiError
                (JStr (''HTTP '' @ show_int (status r) @ '': '' @ statusText r)) (status r))))"
proof -
  note fst_eq = fst_request_error_response [where fetch = fetch, OF pre resp nok]
  have plain: "\<not> isJson r \<Longrightarrow>
      fst (request fetch now endpoint options w) = Inl (ApiError (JStr (body_text r)) (status r))"
    by (simp add: fst_eq errorMessage_of_def)
  have obj: "isJson r \<Longrightarrow> body_json r = Inr (JObj ps) \<Longrightarrow>
      fst (request fetch now endpoint options w) =
        Inl (ApiError
          (case truthy_prop (map_of ps ''detail'') of
             Some d \<Rightarrow> d
           | None \<Rightarrow>
               (case truthy_prop (map_of ps ''message'') of
                  Some m \<Rightarrow> m
                | None \<Rightarrow>
                    (case truthy_prop (map_of ps ''title'') of
                       Some t \<Rightarrow> t
                     | None \<Rightarrow> JStr (''HTTP '' @ show_int (status r) @ '': '' @ statusText r))))
          (status r))" for ps
    by (simp add: fst_eq errorMessage_of_def split: option.split)
  show ?thesis
    unfolding Let_def
  proof (intro conjI allI impI)
    assume "\<not> isJson r"
    then show "fst (request fetch now endpoint options w) =
        Inl (ApiError (JStr (body_text r)) (status r))" by (rule plain)
  qed (simp_all add: obj)
qed

theorem error_body_message_witness:
  \<open>fst (request (\<lambda>c. Resolved json_detail_response) 4000 ''/api/v1/tasks'' no_options
          browser_world) = Inl (ApiError (JStr ''Title is required'') 400)
   \<and> fst (request (\<lambda>c. Resolved unauthorized_response) 4000 ''/api/v1/tasks'' no_options
          browser_world) = Inl (ApiError (JStr ''Unauthorized'') 401)
   \<and> fst (request (\<lambda>c. Resolved json_title_response) 4000 ''/api/v1/tasks'' no_options
          browser_world) = Inl (ApiError (JStr ''Task not found'') 404)
   \<and> fst (request (\<lambda>c. Resolved json_empty_response) 4000 ''/api/v1/tasks'' no_options
          browser_world) = Inl (ApiError (JStr ''HTTP 400: Bad Request'') 400)
   \<and> fst (request (\<lambda>c. Resolved text_detail_response) 4000 ''/api/v1/tasks'' no_options
          browser_world) = Inl (ApiError (JStr ''{"detail":"Title is required"}'') 400)\<close>
proof -
  have pre: "\<not> (truthy_str (token browser_world) \<and> isTokenExpired 4000 browser_world)"
    by (simp add: isTokenExpired_def browser_world_def)
  have nok: "\<not> ok json_detail_response" "\<not> ok unauthorized_response"
    "\<not> ok json_title_response" "\<not> ok json_empty_response" "\<not> ok text_detail_response"
    by (simp_all add: ok_def json_detail_response_def unauthorized_response_def
        json_title_response_def json_empty_response_def text_detail_response_def)
  have js: "isJson json_detail_response" "isJson unauthorized_response"
    "isJson json_title_response" "isJson json_empty_response" "\<not> isJson text_detail_response"
    by (simp_all add: isJson_def json_detail_response_def unauthorized_response_def
        json_title_response_def json_empty_response_def text_detail_response_def)
  have bodies:
    "body_json json_detail_response = Inr (JObj [(''detail'', JStr ''Title is required'')])"
    "body_json unauthorized_response = Inr (JObj [(''message'', JStr ''Unauthorized'')])"
    "body_json json_title_response =
       Inr (JObj [(''detail'', JStr []), (''message'', JNull), (''title'', JStr ''Task not found'')])"
    "body_json json_empty_response = Inr (JObj [])"
    \<open>body_text text_detail_response = ''{"detail":"Title is required"}''\<close>
    by (simp_all add: json_detail_response_def unauthorized_response_def
        json_title_response_def json_empty_response_def text_detail_response_def)
  have st: "status json_detail_response = 400" "status unauthorized_response = 401"
    "status json_title_response = 404" "status json_empty_response = 400"
    "status text_detail_response = 400" "statusText json_empty_response = ''Bad Request''"
    by (simp_all add: json_detail_response_def unauthorized_response_def
        json_title_response_def json_empty_response_def text_detail_response_def)
  have str: "show_int 400 = ''400''"
    by (simp add: show_int_def show_nat.simps digit_char_def)
  from error_body_message [where fetch = "\<lambda>c. Resolved json_detail_response"
      and endpoint = "''/api/v1/tasks''" and options = no_options, OF pre refl nok(1)]
    error_body_message [where fetch = "\<lambda>c. Resolved unauthorized_response"
      and endpoint = "''/api/v1/tasks''" and options = no_options, OF pre refl nok(2)]
    error_body_message [where fetch = "\<lambda>c. Resolved json_title_response"
      and endpoint = "''/api/v1/tasks''" and options = no_options, OF pre refl nok(3)]
    error_body_message [where fetch = "\<lambda>c. Resolved json_empty_response"
      and endpoint = "''/api/v1/tasks''" and options = no_options, OF pre refl nok(4)]
    error_body_message [where fetch = "\<lambda>c. Resolved text_detail_response"
      and endpoint = "''/api/v1/tasks''" and options = no_options, OF pre refl nok(5)]
  show ?thesis using js bodies st str by (simp add: Let_def)
qed

text \<open>
  The remaining JSON bodies. A JSON string is its own message. A body that does not parse,
  and the body \<^verbatim>\<open>null\<close>, end in the \<^verbatim>\<open>catch\<close> block: the failure then has status 0, not the
  response's.
\<close>

lemma error_body_json_string:
  assumes "\<not> (truthy_str (token w) \<and> isTokenExpired now w)"
    and "fetch (fetch_call_of endpoint options w) = Resolved r"
    and "\<not> ok r" and "isJson r" and "body_json r = Inr (JStr s)"
  shows "fst (request fetch now endpoint options w) = Inl (ApiError (JStr s) (status r))"
  using assms(4,5)
  by (simp add: fst_request_error_response [where fetch = fetch, OF assms(1,2,3)]
      errorMessage_of_def)

lemma error_body_json_null:
  assumes "\<not> (truthy_str (token w) \<and> isTokenExpired now w)"
    and "fetch (fetch_call_of endpoint options w) = Resolved r"
    and "\<not> ok r" and "isJson r" and "body_json r = Inr JNull"
  shows "fst (request fetch now endpoint options w) =
           Inl (ApiError (JStr ''An error occurred. Please try again.'') 0)"
  using assms(4,5)
  by (simp add: fst_request_error_response [where fetch = fetch, OF assms(1,2,3)]
      errorMessage_of_def null_TypeError_def catch_block_def)

lemma error_body_unparsed:
  assumes "\<not> (truthy_str (token w) \<and> isTokenExpired now w)"
    and "fetch (fetch_call_of endpoint options w) = Resolved r"
    and "\<not> ok r" and "isJson r" and "body_json r = Inl e"
  shows "fst (request fetch now endpoint options w) = Inl (catch_block e)"
  using assms(4,5)
  by (simp add: fst_request_error_response [where fetch = fetch, OF assms(1,2,3)])

section \<open>Claims about the task list\<close>

lemma TaskStatus_string_nonempty [simp]: "TaskStatus_string st \<noteq> []"
  by (cases st) simp_all

lemma SortOrder_string_nonempty [simp]: "SortOrder_string so \<noteq> []"
  by (cases so) simp_all

lemma join_amp_nonempty: "x \<noteq> [] \<Longrightarrow> join_amp (x # xs) \<noteq> []"
  by (cases xs) simp_all

lemma params_toString_empty: "params_toString ps = [] \<longleftrightarrow> ps = []"
  by (cases ps) (auto simp add: params_toString_def join_amp_nonempty split: prod.split)

lemma getTasks_params_None [simp]: "getTasks_params None = []"
  by (simp add: getTasks_params_def)

lemma getTasks_params_Some:
  "getTasks_params (Some f) =
     (case filter_page f of Some p \<Rightarrow> if p \<noteq> 0 then [(''page'', show_int p)] else [] | None \<Rightarrow> [])
   @ (case filter_size f of Some n \<Rightarrow> if n \<noteq> 0 then [(''size'', show_int n)] else [] | None \<Rightarrow> [])
   @ (case filter_q f of Some (NonNull q) \<Rightarrow> if q \<noteq> [] then [(''q'', q)] else [] | _ \<Rightarrow> [])
   @ (case filter_status f of Some (NonNull st) \<Rightarrow> [(''status'', TaskStatus_string st)] | _ \<Rightarrow> [])
   @ (case filter_sort f of Some so \<Rightarrow> [(''sort'', SortOrder_string so)] | None \<Rightarrow> [])"
  by (simp add: getTasks_params_def Let_def split: option.split nullable.split)

lemma page_param:
  "(''page'', v) \<in> set (getTasks_params filters) \<longleftrightarrow>
     (\<exists>f p. filters = Some f \<and> filter_page f = Some p \<and> p \<noteq> 0 \<and> v = show_int p)"
proof (cases filters)
  case None
  then show ?thesis by simp
next
  case (Some f)
  then show ?thesis
    by (cases "filter_page f")
       (auto simp add: getTasks_params_Some split: option.split nullable.split)
qed

lemma size_param:
  "(''size'', v) \<in> set (getTasks_params filters) \<longleftrightarrow>
     (\<exists>f n. filters = Some f \<and> filter_size f = Some n \<and> n \<noteq> 0 \<and> v = show_int n)"
proof (cases filters)
  case None
  then show ?thesis by simp
next
  case (Some f)
  then show ?thesis
    by (cases "filter_size f")
       (auto simp add: getTasks_params_Some split: option.split nullable.split)
qed

lemma q_param:
  "(''q'', v) \<in> set (getTasks_params filters) \<longleftrightarrow>
     (\<exists>f. filters = Some f \<and> filter_q f = Some (NonNull v) \<and> v \<noteq> [])"
proof (cases filters)
  case None
  then show ?thesis by simp
next
  case (Some f)
  show ?thesis
  proof (cases "filter_q f")
    case None
    with Some show ?thesis
      by (auto simp add: getTasks_params_Some split: option.split nullable.split)
  next
    case (Some x)
    with \<open>filters = Some f\<close> show ?thesis
      by (cases x) (auto simp add: getTasks_params_Some split: option.split nullable.split)
  qed
qed

lemma status_param:
  "(''status'', v) \<in> set (getTasks_params filters) \<longleftrightarrow>
     (\<exists>f st. filters = Some f \<and> filter_status f = Some (NonNull st) \<and> v = TaskStatus_string st)"
proof (cases filters)
  case None
  then show ?thesis by simp
next
  case (Some f)
  show ?thesis
  proof (cases "filter_status f")
    case None
    with Some show ?thesis
      by (auto simp add: getTasks_params_Some split: option.split nullable.split)
  next
    case (Some x)
    with \<open>filters = Some f\<close> show ?thesis
      by (cases x) (auto simp add: getTasks_params_Some split: option.split nullable.split)
  qed
qed

lemma sort_param:
  "(''sort'', v) \<in> set (getTasks_params filters) \<longleftrightarrow>
     (\<exists>f so. filters = Some f \<and> filter_sort f = Some so \<and> v = SortOrder_string so)"
proof (cases filters)
  case None
  then show ?thesis by simp
next
  case (Some f)
  then show ?thesis
    by (cases "filter_sort f")
       (auto simp add: getTasks_params_Some split: option.split nullable.split)
qed

lemma param_names:
  "(n, v) \<in> set (getTasks_params filters) \<Longrightarrow>
     n \<in> {''page'', ''size'', ''q'', ''status'', ''sort''}"
  by (cases filters)
     (auto simp add: getTasks_params_Some split: option.split_asm nullable.split_asm if_split_asm)

lemma getTasks_endpoint_cases:
  "getTasks_endpoint filters =
     (if getTasks_params filters = [] then ''/api/v1/tasks''
      else ''/api/v1/tasks?'' @ params_toString (getTasks_params filters))"
  by (simp add: getTasks_endpoint_def Let_def params_toString_empty)

lemma getTasks_url:
  assumes "\<not> (truthy_str (token w) \<and> isTokenExpired now w)"
  shows "map url (fetch_calls (snd (getTasks fetch now filters w))) =
           map url (fetch_calls w) @ [baseUrl w @ getTasks_endpoint filters]"
proof (cases "fetch (fetch_call_of (getTasks_endpoint filters) no_options w)")
  case (Rejected e)
  with assms show ?thesis
    by (simp add: getTasks_def request_rejected fetch_call_of_def)
next
  case (Resolved r)
  have "fetch_calls (snd (handle_response now r w')) = fetch_calls w'" for w'
    by (simp add: handle_response_def on_401_def setToken_null flag_and_redirect_def
        clear_stored_def Let_def split: sum.split)
  with assms Resolved show ?thesis
    by (simp add: getTasks_def snd_request_resolved fetch_call_of_def)
qed

text \<open>
  Claim C9 says that each filter field is serialized exactly when it is present in the
  filter object. In \<^verbatim>\<open>{ page: 0, q: "" }\<close> both \<^verbatim>\<open>page\<close> and \<^verbatim>\<open>q\<close> are present, no parameter
  is appended, and the endpoint has no query string.
\<close>

theorem getTasks_query_counterexample:
  "filter_page zero_page_filters = Some 0
   \<and> filter_q zero_page_filters = Some (NonNull '''')
   \<and> getTasks_params (Some zero_page_filters) = []
   \<and> getTasks_endpoint (Some zero_page_filters) = ''/api/v1/tasks''"
  by (simp add: getTasks_endpoint_cases getTasks_params_Some zero_page_filters_def)

text \<open>
  Claim C9, amended. For every filter object passed to \<^verbatim>\<open>getTasks\<close>, each of \<^verbatim>\<open>page\<close>,
  \<^verbatim>\<open>size\<close>, \<^verbatim>\<open>q\<close>, \<^verbatim>\<open>status\<close> and \<^verbatim>\<open>sort\<close> is a query parameter exactly when it is present with
  a truthy value: a non-zero number, a non-empty string, a status or sort order that is not
  \<^verbatim>\<open>null\<close>; its value is then the field's. No other parameter is sent. The endpoint is
  \<^verbatim>\<open>/api/v1/tasks\<close> with no query string when no field is serialized, and
  \<^verbatim>\<open>/api/v1/tasks?\<close> followed by the url-encoded parameters otherwise; the URL fetched is the
  base URL followed by the endpoint.
\<close>

theorem getTasks_query_parameters:
  "(\<forall>v. (''page'', v) \<in> set (getTasks_params filters) \<longleftrightarrow>
        (\<exists>f p. filters = Some f \<and> filter_page f = Some p \<and> p \<noteq> 0 \<and> v = show_int p))
   \<and> (\<forall>v. (''size'', v) \<in> set (getTasks_params filters) \<longleftrightarrow>
        (\<exists>f n. filters = Some f \<and> filter_size f = Some n \<and> n \<noteq> 0 \<and> v = show_int n))
   \<and> (\<forall>v. (''q'', v) \<in> set (getTasks_params filters) \<longleftrightarrow>
        (\<exists>f. filters = Some f \<and> filter_q f = Some (NonNull v) \<and> v \<noteq> []))
   \<and> (\<forall>v. (''status'', v) \<in> set (getTasks_params filters) \<longleftrightarrow>
        (\<exists>f st. filters = Some f \<and> filter_status f = Some (NonNull st)
           \<and> v = TaskStatus_string st))
   \<and> (\<forall>v. (''sort'', v) \<in> set (getTasks_params filters) \<longleftrightarrow>
        (\<exists>f so. filters = Some f \<and> filter_sort f = Some so \<and> v = SortOrder_string so))
   \<and> (\<forall>n v. (n, v) \<in> set (getTasks_params filters) \<longrightarrow>
        n \<in> {''page'', ''size'', ''q'', ''status'', ''sort''})
   \<and> getTasks_endpoint filters =
       (if getTasks_params filters = [] then ''/api/v1/tasks''
        else ''/api/v1/tasks?'' @ params_toString (getTasks_params filters))
   \<and> (\<not> (truthy_str (token w) \<and> isTokenExpired now w) \<longrightarrow>
        map url (fetch_calls (snd (getTasks fetch now filters w))) =
          map url (fetch_calls w) @ [baseUrl w @ getTasks_endpoint filters])"
proof (intro conjI allI impI)
  show "getTasks_endpoint filters =
      (if getTasks_params filters = [] then ''/api/v1/tasks''
       else ''/api/v1/tasks?'' @ params_toString (getTasks_params filters))"
    by (rule getTasks_endpoint_cases)
qed (rule page_param size_param q_param status_param sort_param param_names getTasks_url,
     assumption?)+

theorem getTasks_query_parameters_witness:
  "(''page'', ''2'') \<in> set (getTasks_params (Some page_two_filters))
   \<and> (''size'', ''20'') \<in> set (getTasks_params (Some page_two_filters))
   \<and> (''q'', ''anything'') \<notin> set (getTasks_params (Some page_two_filters))
   \<and> (''sort'', ''UPDATED_DESC'') \<in> set (getTasks_params (Some page_two_filters))
   \<and> getTasks_endpoint (Some page_two_filters) = ''/api/v1/tasks?page=2&size=20&sort=UPDATED_DESC''
   \<and> getTasks_endpoint None = ''/api/v1/tasks''
   \<and> map url (fetch_calls (snd (getTasks (\<lambda>c. Resolved unauthorized_response) 4000
          (Some page_two_filters) browser_world))) =
        [''http://localhost:8080/api/v1/tasks?page=2&size=20&sort=UPDATED_DESC'']"
proof -
  have str: "show_int 2 = ''2''" "show_int 20 = ''20''"
    by (simp_all add: show_int_def show_nat.simps digit_char_def)
  have params: "getTasks_params (Some page_two_filters) =
      [(''page'', ''2''), (''size'', ''20''), (''sort'', ''UPDATED_DESC'')]"
    by (simp add: getTasks_params_Some page_two_filters_def str)
  have enc: "params_toString [(''page'', ''2''), (''size'', ''20''), (''sort'', ''UPDATED_DESC'')] =
      ''page=2&size=20&sort=UPDATED_DESC''"
    by (simp add: params_toString_def urlencode_def urlencode_byte_def)
  have pre: "\<not> (truthy_str (token browser_world) \<and> isTokenExpired 4000 browser_world)"
    by (simp add: isTokenExpired_def browser_world_def)
  have base: "baseUrl browser_world = ''http://localhost:8080''" "fetch_calls browser_world = []"
    by (simp_all add: browser_world_def)
  note two = getTasks_query_parameters [of "Some page_two_filters" browser_world 4000
      "\<lambda>c. Resolved unauthorized_response"]
  note none = getTasks_query_parameters [of None browser_world 4000
      "\<lambda>c. Resolved unauthorized_response"]
  have ep: "getTasks_endpoint (Some page_two_filters) =
      ''/api/v1/tasks?'' @ params_toString (getTasks_params (Some page_two_filters))"
    using two [THEN conjunct2, THEN conjunct2, THEN conjunct2, THEN conjunct2, THEN conjunct2,
        THEN conjunct2, THEN conjunct1]
    by (simp add: params)
  have ep0: "getTasks_endpoint None = ''/api/v1/tasks''"
    using none [THEN conjunct2, THEN conjunct2, THEN conjunct2, THEN conjunct2, THEN conjunct2,
        THEN conjunct2, THEN conjunct1]
    by simp
  have sent: "map url (fetch_calls (snd (getTasks (\<lambda>c. Resolved unauthorized_response) 4000
      (Some page_two_filters) browser_world))) =
      map url (fetch_calls browser_world) @
        [baseUrl browser_world @ getTasks_endpoint (Some page_two_filters)]"
    using two [THEN conjunct2, THEN conjunct2, THEN conjunct2, THEN conjunct2, THEN conjunct2,
        THEN conjunct2, THEN conjunct2] pre
    by blast
  show ?thesis by (simp add: sent base ep ep0 params enc)
qed

section \<open>Claims about the expiration watcher\<close>

lemma checkTokenExpiration_absent:
  assumes "\<not> truthy_str (getToken w) \<or> \<not> truthy_num (getTokenExpiresAt w)"
  shows "checkTokenExpiration now threshold w = (None, w\<lparr>warningShown := False\<rparr>)"
  using assms by (auto simp add: checkTokenExpiration_def)

lemma checkTokenExpiration_expired:
  assumes "truthy_str (getToken w)" and "getTokenExpiresAt w = Some (Num expiresAt)"
    and "expiresAt \<noteq> 0" and "has_window w" and "expiresAt - now \<le> 0"
  shows "checkTokenExpiration now threshold w =
           (None, (clear_stored (w\<lparr>token := None\<rparr>))
              \<lparr>sessionStorage := (sessionStorage w)(''session_expired'' \<mapsto> ''true''),
               router_replaced := router_replaced w @ [''/login'']\<rparr>)"
  using assms by (simp add: checkTokenExpiration_def setToken_null clear_stored_def Let_def)

lemma checkTokenExpiration_warn:
  assumes "truthy_str (getToken w)" and "getTokenExpiresAt w = Some (Num expiresAt)"
    and "expiresAt \<noteq> 0" and "0 < expiresAt - now"
    and "floor_div (expiresAt - now) 1000 \<le> threshold" and "\<not> warningShown w"
  shows "checkTokenExpiration now threshold w =
           (None, w\<lparr>toasts := toasts w @
                       [expiring_toast (ceil_div (floor_div (expiresAt - now) 1000) 60)],
                    warningShown := True\<rparr>)"
  using assms by (simp add: checkTokenExpiration_def Let_def)

lemma checkTokenExpiration_quiet:
  assumes "truthy_str (getToken w)" and "getTokenExpiresAt w = Some (Num expiresAt)"
    and "expiresAt \<noteq> 0" and "0 < expiresAt - now"
    and "\<not> (floor_div (expiresAt - now) 1000 \<le> threshold \<and> \<not> warningShown w)"
  shows "checkTokenExpiration now threshold w =
           (None, if floor_div (expiresAt - now) 1000 > threshold + 60
                  then w\<lparr>warningShown := False\<rparr> else w)"
  using assms by (auto simp add: checkTokenExpiration_def Let_def)

text \<open>
  Claim C8 says that a tick clears the session when the remaining time is at most 0, and
  otherwise warns with the remaining whole minutes rounded up. With 500 ms left (expiry
  5000, time 4500) the session is kept and a warning is raised, although the remaining
  whole seconds are 0; and the warning says \<^verbatim>\<open>0 minute\<close>, although 500 ms rounded up to
  whole minutes is 1.
\<close>

theorem watcher_tick_counterexample:
  "getToken browser_world = Some ''tok''
   \<and> getTokenExpiresAt browser_world = Some (Num 5000)
   \<and> floor_div (5000 - 4500) 1000 = 0
   \<and> getToken (snd (checkTokenExpiration 4500 300 browser_world)) = Some ''tok''
   \<and> sessionStorage (snd (checkTokenExpiration 4500 300 browser_world)) ''session_expired'' = None
   \<and> router_replaced (snd (checkTokenExpiration 4500 300 browser_world)) = []
   \<and> map toast_description (toasts (snd (checkTokenExpiration 4500 300 browser_world))) =
        [''Your session will expire in 0 minute. Please save your work.'']
   \<and> \<lceil>(5000 - 4500) / (60000 :: real)\<rceil> = 1"
proof -
  have tick: "checkTokenExpiration 4500 300 browser_world =
      (None, browser_world\<lparr>toasts := toasts browser_world @ [expiring_toast 0],
                           warningShown := True\<rparr>)"
    by (simp add: checkTokenExpiration_def getToken_def getTokenExpiresAt_def browser_world_def
        floor_div_def ceil_div_def Let_def)
  have msg: "toast_description (expiring_toast 0) =
      ''Your session will expire in 0 minute. Please save your work.''"
    by (simp add: expiring_toast_def show_int_def show_nat.simps digit_char_def)
  have before: "getToken browser_world = Some ''tok''"
    "getTokenExpiresAt browser_world = Some (Num 5000)"
    "sessionStorage browser_world ''session_expired'' = None"
    "router_replaced browser_world = []" "toasts browser_world = []"
    by (simp_all add: getToken_def getTokenExpiresAt_def browser_world_def)
  have after: "getToken (snd (checkTokenExpiration 4500 300 browser_world)) = Some ''tok''"
    "sessionStorage (snd (checkTokenExpiration 4500 300 browser_world)) ''session_expired'' = None"
    "router_replaced (snd (checkTokenExpiration 4500 300 browser_world)) = []"
    "map toast_description (toasts (snd (checkTokenExpiration 4500 300 browser_world))) =
       [''Your session will expire in 0 minute. Please save your work.'']"
    using before by (simp_all add: tick msg getToken_def)
  have secs: "floor_div (5000 - 4500) 1000 = 0" by (simp add: floor_div_def)
  have up: "\<lceil>(5000 - 4500) / (60000 :: real)\<rceil> = 1"
    by (simp add: ceiling_eq_iff)
  show ?thesis using before(1,2) after secs up by simp
qed

text \<open>
  Claim C8, amended. On every tick in a reachable world the watcher raises no exception.
  When the token is absent or empty, or the expiry is absent, 0 or \<^verbatim>\<open>NaN\<close>, it resets the
  warning flag and changes nothing else. Otherwise, with \<open>timeUntilExpiry\<close> the remaining
  milliseconds and \<open>seconds\<close> their whole seconds \<open>\<lfloor>timeUntilExpiry / 1000\<rfloor>\<close>: if
  \<open>timeUntilExpiry \<le> 0\<close> the session is cleared, \<^verbatim>\<open>session_expired\<close> is set and
  \<^verbatim>\<open>router.replace("/login")\<close> is called; else the session is kept, and if
  \<open>seconds \<le> threshold\<close> and no warning has been shown, exactly one warning is raised that
  states \<open>\<lceil>seconds / 60\<rceil>\<close> minutes and the warning flag is set; else no warning is raised and
  the warning flag stays set only if it was set and \<open>seconds \<le> threshold + 60\<close>.
\<close>

theorem watcher_tick:
  assumes wf: "wf_world w"
  shows "let (raised, w') = checkTokenExpiration now threshold w in
     raised = None
   \<and> (\<not> truthy_str (getToken w) \<or> \<not> truthy_num (getTokenExpiresAt w) \<longrightarrow>
        w' = w\<lparr>warningShown := False\<rparr>)
   \<and> (\<forall>expiresAt. truthy_str (getToken w) \<and> getTokenExpiresAt w = Some (Num expiresAt)
          \<and> expiresAt \<noteq> 0 \<longrightarrow>
        (let timeUntilExpiry = expiresAt - now;
             seconds = floor_div timeUntilExpiry 1000 in
         if timeUntilExpiry \<le> 0 then
           getToken w' = None \<and> getTokenExpiresAt w' = None
           \<and> localStorage w' ''auth_token'' = None
           \<and> localStorage w' ''auth_token_expires_at'' = None
           \<and> sessionStorage w' ''session_expired'' = Some ''true''
           \<and> router_replaced w' = router_replaced w @ [''/login'']
           \<and> toasts w' = toasts w \<and> warningShown w' = warningShown w
         else
           getToken w' = getToken w \<and> getTokenExpiresAt w' = getTokenExpiresAt w
           \<and> localStorage w' = localStorage w \<and> sessionStorage w' = sessionStorage w
           \<and> router_replaced w' = router_replaced w
           \<and> (if seconds \<le> threshold \<and> \<not> warningShown w then
                 toasts w' = toasts w @ [expiring_toast (ceil_div seconds 60)]
                 \<and> warningShown w'
               else
                 toasts w' = toasts w
                 \<and> (warningShown w' \<longleftrightarrow> warningShown w \<and> seconds \<le> threshold + 60))))"
proof -
  obtain raised w' where run: "checkTokenExpiration now threshold w = (raised, w')"
    by (cases "checkTokenExpiration now threshold w")
  then have rw: "raised = fst (checkTokenExpiration now threshold w)"
    "w' = snd (checkTokenExpiration now threshold w)"
    by simp_all
  have absent: "w' = w\<lparr>warningShown := False\<rparr>" and absent_ok: "raised = None"
    if "\<not> truthy_str (getToken w) \<or> \<not> truthy_num (getTokenExpiresAt w)"
    using checkTokenExpiration_absent [OF that, of now threshold] by (simp_all add: rw)
  have present: "raised = None \<and>
      (let timeUntilExpiry = e - now;
           seconds = floor_div timeUntilExpiry 1000 in
       if timeUntilExpiry \<le> 0 then
         getToken w' = None \<and> getTokenExpiresAt w' = None
         \<and> localStorage w' ''auth_token'' = None
         \<and> localStorage w' ''auth_token_expires_at'' = None
         \<and> sessionStorage w' ''session_expired'' = Some ''true''
         \<and> router_replaced w' = router_replaced w @ [''/login'']
         \<and> toasts w' = toasts w \<and> warningShown w' = warningShown w
       else
         getToken w' = getToken w \<and> getTokenExpiresAt w' = getTokenExpiresAt w
         \<and> localStorage w' = localStorage w \<and> sessionStorage w' = sessionStorage w
         \<and> router_replaced w' = router_replaced w
         \<and> (if seconds \<le> threshold \<and> \<not> warningShown w then
               toasts w' = toasts w @ [expiring_toast (ceil_div seconds 60)]
               \<and> warningShown w'
             else
               toasts w' = toasts w
               \<and> (warningShown w' \<longleftrightarrow> warningShown w \<and> seconds \<le> threshold + 60)))"
    if tok: "truthy_str (getToken w)" and e: "getTokenExpiresAt w = Some (Num e)"
      and nz: "e \<noteq> 0" for e
  proof -
    from wf e nz have win: "has_window w"
      by (simp add: expiry_needs_window getTokenExpiresAt_def)
    show ?thesis
    proof (cases "e - now \<le> 0")
      case True
      show ?thesis
        using True
        by (simp add: rw checkTokenExpiration_expired [OF tok e nz win True] clear_stored_def
            getToken_def getTokenExpiresAt_def Let_def)
    next
      case late: False
      then have pos: "0 < e - now" by simp
      show ?thesis
      proof (cases "floor_div (e - now) 1000 \<le> threshold \<and> \<not> warningShown w")
        case True
        then have le: "floor_div (e - now) 1000 \<le> threshold" and ns: "\<not> warningShown w"
          by simp_all
        show ?thesis
          using late le ns
          by (simp add: rw checkTokenExpiration_warn [OF tok e nz pos le ns]
              getToken_def getTokenExpiresAt_def Let_def)
      next
        case quiet: False
        show ?thesis
          using late quiet
          by (auto simp add: rw checkTokenExpiration_quiet [OF tok e nz pos quiet]
              getToken_def getTokenExpiresAt_def Let_def)
      qed
    qed
  qed
  have ok: "raised = None"
  proof (cases "\<not> truthy_str (getToken w) \<or> \<not> truthy_num (getTokenExpiresAt w)")
    case True
    then show ?thesis by (rule absent_ok)
  next
    case False
    then obtain e where "getTokenExpiresAt w = Some (Num e)" and "e \<noteq> 0"
      using truthy_num_Some by blast
    with False present show ?thesis by blast
  qed
  show ?thesis
    unfolding run
    using ok absent present by simp
qed

theorem watcher_tick_witness:
  "getToken (snd (checkTokenExpiration 6000 300 browser_world)) = None
   \<and> sessionStorage (snd (checkTokenExpiration 6000 300 browser_world)) ''session_expired''
        = Some ''true''
   \<and> router_replaced (snd (checkTokenExpiration 6000 300 browser_world)) = [''/login'']
   \<and> toasts (snd (checkTokenExpiration 0 300 browser_world)) = [expiring_toast 1]
   \<and> warningShown (snd (checkTokenExpiration 0 300 browser_world))
   \<and> toasts (snd (checkTokenExpiration 0 300 (browser_world\<lparr>warningShown := True\<rparr>))) = []
   \<and> warningShown (snd (checkTokenExpiration 0 300 (browser_world\<lparr>warningShown := True\<rparr>)))
   \<and> \<not> warningShown (snd (checkTokenExpiration 0 300 warned_world))
   \<and> snd (checkTokenExpiration 0 300 (warned_world\<lparr>token := None\<rparr>)) =
        warned_world\<lparr>token := None, warningShown := False\<rparr>"
proof -
  have wf: "wf_world browser_world" "wf_world (browser_world\<lparr>warningShown := True\<rparr>)"
    "wf_world warned_world" "wf_world (warned_world\<lparr>token := None\<rparr>)"
    by (simp_all add: wf_world_def browser_world_def warned_world_def)
  have far: "truthy_str (getToken warned_world)"
    "getTokenExpiresAt warned_world = Some (Num 500000)" "warningShown warned_world"
    by (simp_all add: getToken_def getTokenExpiresAt_def browser_world_def warned_world_def)
  have gone: "\<not> truthy_str (getToken (warned_world\<lparr>token := None\<rparr>))"
    by (simp add: getToken_def)
  have before: "truthy_str (getToken browser_world)"
    "getTokenExpiresAt browser_world = Some (Num 5000)"
    "router_replaced browser_world = []" "toasts browser_world = []"
    "\<not> warningShown browser_world"
    by (simp_all add: getToken_def getTokenExpiresAt_def browser_world_def)
  have shown: "truthy_str (getToken (browser_world\<lparr>warningShown := True\<rparr>))"
    "getTokenExpiresAt (browser_world\<lparr>warningShown := True\<rparr>) = Some (Num 5000)"
    "toasts (browser_world\<lparr>warningShown := True\<rparr>) = []"
    by (simp_all add: getToken_def getTokenExpiresAt_def browser_world_def)
  have arith: "floor_div (5000 - 0) 1000 = 5" "ceil_div 5 60 = 1"
    "floor_div (500000 - 0) 1000 = 500"
    by (simp_all add: floor_div_def ceil_div_def)
  from watcher_tick [OF wf(1), of 6000 300] watcher_tick [OF wf(1), of 0 300]
    watcher_tick [OF wf(2), of 0 300] watcher_tick [OF wf(3), of 0 300]
    watcher_tick [OF wf(4), of 0 300]
  show ?thesis
    using before shown far gone arith by (simp add: case_prod_beta Let_def)
qed

end
